theory Spec2Isabelle
  imports Complex_Main "HOL-Library.Word" "HOL-Library.Code_Target_Numeral"
begin

unbundle bit_operations_syntax

section \<open>JavaScript strings and numbers\<close>

text \<open>
  A JavaScript string is a sequence of UTF-16 code units. String literals of the scripts
  are written \<open>js ''...''\<close>. Integer-valued numbers (screen sizes, the timezone offset,
  the session id) are \<open>int\<close>; coordinates and accuracies are \<open>real\<close>, on which the
  comparisons of the scripts are those of finite doubles.
\<close>

type_synonym jsstring = "16 word list"
type_synonym byte = "8 word"

definition js :: "string \<Rightarrow> jsstring" where
  "js s = map of_char s"

definition hex_digit :: "nat \<Rightarrow> 16 word" where
  "hex_digit d = (if d < 10 then of_nat (48 + d) else of_nat (87 + d))"

text \<open>\<open>Number.prototype.toString(radix)\<close> on a non-negative integer, radix 10 and 16.\<close>

fun toString10 :: "nat \<Rightarrow> jsstring" where
  "toString10 n = (if n < 10 then [hex_digit n] else toString10 (n div 10) @ [hex_digit (n mod 10)])"

fun toString16 :: "nat \<Rightarrow> jsstring" where
  "toString16 n = (if n < 16 then [hex_digit n] else toString16 (n div 16) @ [hex_digit (n mod 16)])"

declare toString10.simps [simp del] toString16.simps [simp del]

definition numberToString :: "int \<Rightarrow> jsstring" where
  "numberToString i = (if i < 0 then js ''-'' @ toString10 (nat (- i)) else toString10 (nat i))"

text \<open>\<open>String.prototype.padStart\<close> with a one-unit filler.\<close>

definition padStart :: "nat \<Rightarrow> 16 word \<Rightarrow> jsstring \<Rightarrow> jsstring" where
  "padStart n c s = replicate (n - length s) c @ s"

definition isHighSurrogate :: "16 word \<Rightarrow> bool" where
  "isHighSurrogate u = (0xD800 \<le> u \<and> u \<le> 0xDBFF)"

definition isLowSurrogate :: "16 word \<Rightarrow> bool" where
  "isLowSurrogate u = (0xDC00 \<le> u \<and> u \<le> 0xDFFF)"

subsection \<open>\<open>JSON.stringify\<close> on strings and integers\<close>

definition unicodeEscape :: "16 word \<Rightarrow> jsstring" where
  "unicodeEscape u =
     [92, 117] @ map (\<lambda>k. hex_digit (unat (drop_bit k u AND 15))) [12, 8, 4, 0]"

text \<open>
  The body of \<open>QuoteJSONString\<close>: backspace, tab, line feed, form feed, carriage return,
  the double quote and the backslash have two-unit escapes, other control units and
  unpaired surrogates are written as \<open>\uXXXX\<close>, everything else is kept.
\<close>

fun quoteJSONUnits :: "jsstring \<Rightarrow> jsstring" where
  "quoteJSONUnits [] = []"
| "quoteJSONUnits (u # us) =
     (if u = 8 then [92, 98] @ quoteJSONUnits us
      else if u = 9 then [92, 116] @ quoteJSONUnits us
      else if u = 10 then [92, 110] @ quoteJSONUnits us
      else if u = 12 then [92, 102] @ quoteJSONUnits us
      else if u = 13 then [92, 114] @ quoteJSONUnits us
      else if u = 34 then [92, 34] @ quoteJSONUnits us
      else if u = 92 then [92, 92] @ quoteJSONUnits us
      else if u < 32 then unicodeEscape u @ quoteJSONUnits us
      else if isHighSurrogate u then
        (case us of
           [] \<Rightarrow> unicodeEscape u
         | v # vs \<Rightarrow>
             if isLowSurrogate v then u # v # quoteJSONUnits vs
             else unicodeEscape u @ quoteJSONUnits us)
      else if isLowSurrogate u then unicodeEscape u @ quoteJSONUnits us
      else u # quoteJSONUnits us)"

definition quoteJSONString :: "jsstring \<Rightarrow> jsstring" where
  "quoteJSONString s = [34] @ quoteJSONUnits s @ [34]"

datatype jsonval = JString jsstring | JNumber int

fun stringifyValue :: "jsonval \<Rightarrow> jsstring" where
  "stringifyValue (JString s) = quoteJSONString s"
| "stringifyValue (JNumber i) = numberToString i"

definition stringifyProperty :: "string \<times> jsonval \<Rightarrow> jsstring" where
  "stringifyProperty kv = quoteJSONString (js (fst kv)) @ js '':'' @ stringifyValue (snd kv)"

fun joinWith :: "jsstring \<Rightarrow> jsstring list \<Rightarrow> jsstring" where
  "joinWith sep [] = []"
| "joinWith sep [x] = x"
| "joinWith sep (x # y # ys) = x @ sep @ joinWith sep (y # ys)"

definition JSON_stringify :: "(string \<times> jsonval) list \<Rightarrow> jsstring" where
  "JSON_stringify obj = js ''{'' @ joinWith (js '','') (map stringifyProperty obj) @ js ''}''"

subsection \<open>\<open>TextEncoder.encode\<close>: UTF-8\<close>

definition utf8_codepoint :: "nat \<Rightarrow> byte list" where
  "utf8_codepoint c =
     (if c < 0x80 then [of_nat c]
      else if c < 0x800 then [of_nat (0xC0 + c div 64), of_nat (0x80 + c mod 64)]
      else if c < 0x10000 then
        [of_nat (0xE0 + c div 4096), of_nat (0x80 + c div 64 mod 64), of_nat (0x80 + c mod 64)]
      else [of_nat (0xF0 + c div 262144), of_nat (0x80 + c div 4096 mod 64),
            of_nat (0x80 + c div 64 mod 64), of_nat (0x80 + c mod 64)])"

fun encode :: "jsstring \<Rightarrow> byte list" where
  "encode [] = []"
| "encode (u # us) =
     (if isHighSurrogate u then
        (case us of
           [] \<Rightarrow> [0xEF, 0xBF, 0xBD]
         | v # vs \<Rightarrow>
             if isLowSurrogate v
             then utf8_codepoint (0x10000 + (unat u - 0xD800) * 0x400 + (unat v - 0xDC00))
                    @ encode vs
             else [0xEF, 0xBF, 0xBD] @ encode us)
      else if isLowSurrogate u then [0xEF, 0xBF, 0xBD] @ encode us
      else utf8_codepoint (unat u) @ encode us)"

section \<open>\<open>crypto.subtle.digest('SHA-256', data)\<close>\<close>

type_synonym w32 = "32 word"

definition Ch :: "w32 \<Rightarrow> w32 \<Rightarrow> w32 \<Rightarrow> w32" where
  "Ch x y z = (x AND y) XOR (NOT x AND z)"

definition Maj :: "w32 \<Rightarrow> w32 \<Rightarrow> w32 \<Rightarrow> w32" where
  "Maj x y z = (x AND y) XOR (x AND z) XOR (y AND z)"

definition Sigma0 :: "w32 \<Rightarrow> w32" where
  "Sigma0 x = word_rotr 2 x XOR word_rotr 13 x XOR word_rotr 22 x"

definition Sigma1 :: "w32 \<Rightarrow> w32" where
  "Sigma1 x = word_rotr 6 x XOR word_rotr 11 x XOR word_rotr 25 x"

definition sigma0 :: "w32 \<Rightarrow> w32" where
  "sigma0 x = word_rotr 7 x XOR word_rotr 18 x XOR drop_bit 3 x"

definition sigma1 :: "w32 \<Rightarrow> w32" where
  "sigma1 x = word_rotr 17 x XOR word_rotr 19 x XOR drop_bit 10 x"

definition sha256_K :: "w32 list" where
  "sha256_K =
  [1116352408, 1899447441, 3049323471, 3921009573, 961987163, 1508970993,
   2453635748, 2870763221, 3624381080, 310598401, 607225278, 1426881987,
   1925078388, 2162078206, 2614888103, 3248222580, 3835390401, 4022224774,
   264347078, 604807628, 770255983, 1249150122, 1555081692, 1996064986,
   2554220882, 2821834349, 2952996808, 3210313671, 3336571891, 3584528711,
   113926993, 338241895, 666307205, 773529912, 1294757372, 1396182291,
   1695183700, 1986661051, 2177026350, 2456956037, 2730485921, 2820302411,
   3259730800, 3345764771, 3516065817, 3600352804, 4094571909, 275423344,
   430227734, 506948616, 659060556, 883997877, 958139571, 1322822218,
   1537002063, 1747873779, 1955562222, 2024104815, 2227730452, 2361852424,
   2428436474, 2756734187, 3204031479, 3329325298]"

record sha256_state =
  h0 :: w32
  h1 :: w32
  h2 :: w32
  h3 :: w32
  h4 :: w32
  h5 :: w32
  h6 :: w32
  h7 :: w32

definition sha256_init :: sha256_state where
  "sha256_init = \<lparr>h0 = 1779033703, h1 = 3144134277, h2 = 1013904242, h3 = 2773480762,
                   h4 = 1359893119, h5 = 2600822924, h6 = 528734635, h7 = 1541459225\<rparr>"

text \<open>Padding: a one bit, zero bits up to 56 modulo 64 bytes, the bit length on 64 bits.\<close>

definition be_bytes :: "nat \<Rightarrow> nat \<Rightarrow> byte list" where
  "be_bytes k n = map (\<lambda>i. of_nat (n div 256 ^ i)) (rev [0..<k])"

definition sha256_pad :: "byte list \<Rightarrow> byte list" where
  "sha256_pad m =
     m @ [0x80] @ replicate ((119 - length m mod 64) mod 64) 0 @ be_bytes 8 (8 * length m)"

fun be_words :: "byte list \<Rightarrow> w32 list" where
  "be_words (a # b # c # d # bs) =
     (push_bit 24 (ucast a) OR push_bit 16 (ucast b) OR push_bit 8 (ucast c) OR ucast d)
       # be_words bs"
| "be_words _ = []"

fun schedule :: "nat \<Rightarrow> w32 list \<Rightarrow> w32 list" where
  "schedule 0 w = w"
| "schedule (Suc n) w =
     schedule n
       (w @ [sigma1 (w ! (length w - 2)) + w ! (length w - 7)
               + sigma0 (w ! (length w - 15)) + w ! (length w - 16)])"

definition sha256_round :: "sha256_state \<Rightarrow> w32 \<times> w32 \<Rightarrow> sha256_state" where
  "sha256_round s kw =
     (let t1 = h7 s + Sigma1 (h4 s) + Ch (h4 s) (h5 s) (h6 s) + fst kw + snd kw;
          t2 = Sigma0 (h0 s) + Maj (h0 s) (h1 s) (h2 s)
      in \<lparr>h0 = t1 + t2, h1 = h0 s, h2 = h1 s, h3 = h2 s,
          h4 = h3 s + t1, h5 = h4 s, h6 = h5 s, h7 = h6 s\<rparr>)"

definition sha256_block :: "sha256_state \<Rightarrow> byte list \<Rightarrow> sha256_state" where
  "sha256_block s blk =
     (let w = schedule 48 (be_words blk);
          r = foldl sha256_round s (zip sha256_K w)
      in \<lparr>h0 = h0 s + h0 r, h1 = h1 s + h1 r, h2 = h2 s + h2 r, h3 = h3 s + h3 r,
          h4 = h4 s + h4 r, h5 = h5 s + h5 r, h6 = h6 s + h6 r, h7 = h7 s + h7 r\<rparr>)"

fun sha256_blocks :: "nat \<Rightarrow> sha256_state \<Rightarrow> byte list \<Rightarrow> sha256_state" where
  "sha256_blocks 0 s bs = s"
| "sha256_blocks (Suc n) s bs = sha256_blocks n (sha256_block s (take 64 bs)) (drop 64 bs)"

definition word_bytes :: "w32 \<Rightarrow> byte list" where
  "word_bytes x = [ucast (drop_bit 24 x), ucast (drop_bit 16 x), ucast (drop_bit 8 x), ucast x]"

definition digest_SHA256 :: "byte list \<Rightarrow> byte list" where
  "digest_SHA256 m =
     (let p = sha256_pad m; s = sha256_blocks (length p div 64) sha256_init p
      in concat (map word_bytes [h0 s, h1 s, h2 s, h3 s, h4 s, h5 s, h6 s, h7 s]))"

section \<open>The browser environment\<close>

text \<open>
  What the scripts read from \<open>window\<close>, \<open>navigator\<close>, \<open>screen\<close> and \<open>Date\<close>.
  \<open>activeSessionDataStudent\<close> is set by the page template; its \<open>id\<close> is the number of
  the row in \<open>attendance_sessions\<close>.
\<close>

record session_data =
  session_id :: int
  end_time :: jsstring

record window =
  userAgent :: jsstring
  screen_width :: int
  screen_height :: int
  screen_colorDepth :: int
  timezoneOffset :: int
  language :: jsstring
  platform :: jsstring
  has_geolocation :: bool
  GOOGLE_MAPS_API_KEY :: "jsstring option"
  activeSessionDataStudent :: "session_data option"

section \<open>Device fingerprint\<close>

definition components :: "window \<Rightarrow> (string \<times> jsonval) list" where
  "components w =
     [(''userAgent'', JString (userAgent w)),
      (''screenWidth'', JNumber (screen_width w)),
      (''screenHeight'', JNumber (screen_height w)),
      (''colorDepth'', JNumber (screen_colorDepth w)),
      (''timezone'', JNumber (timezoneOffset w)),
      (''language'', JString (language w)),
      (''platform'', JString (platform w))]"

definition byteToHex :: "byte \<Rightarrow> jsstring" where
  "byteToHex b = padStart 2 48 (toString16 (unat b))"

definition getDeviceFingerprint :: "window \<Rightarrow> jsstring" where
  "getDeviceFingerprint w =
     (let jsonString = JSON_stringify (components w);
          data = encode jsonString;
          hashBuffer = digest_SHA256 data
      in concat (map byteToHex hashBuffer))"

section \<open>Geolocation, network and page state\<close>

record coords =
  latitude :: real
  longitude :: real
  accuracy :: real

record position_error =
  code :: nat
  message :: jsstring

type_synonym geo_outcome = "position_error + coords"

record position_options =
  enableHighAccuracy :: bool
  timeout :: "nat option"
  maximumAge :: "nat option"

datatype geo_call =
    GetCurrentPosition position_options
  | WatchPosition nat position_options
  | ClearWatch nat

text \<open>
  The outcome of a \<open>fetch\<close> followed by \<open>response.json()\<close>: the request fails, or a
  response arrives with its \<open>ok\<close> flag, its status and its body, \<open>None\<close> when the body
  is not JSON of the expected shape.
\<close>

datatype 'a fetched = Failed | Responded bool nat "'a option"

datatype formval = FStr jsstring | FNum real

datatype body = NoBody | JsonBody jsstring | FormBody "(jsstring \<times> formval) list"

record request =
  http_method :: jsstring
  url :: jsstring
  headers :: "(jsstring \<times> jsstring) list"
  body :: body

record mark_result =
  success :: bool
  message_of :: jsstring
  category :: jsstring

record present_data =
  present_success :: bool
  students :: "jsstring list option"

record name_data =
  name :: "jsstring option"

record google_data =
  location :: "(real \<times> real) option"
  google_accuracy :: "real option"
  error_message :: "jsstring option"

text \<open>What a rejected promise or a \<open>throw\<close> carries.\<close>

datatype exn = Rejected jsstring | Error jsstring | TypeError | FetchError | JSONError

datatype callback = HideStatus | FetchPresent int | LookupName | TimerTick

record timer =
  timer_id :: nat
  delay :: nat
  repeating :: bool
  callback :: callback

text \<open>
  The page: the elements the student script reads and writes, the timers it has
  registered, and the calls it has made to the network, the geolocation service and the
  console, in order.
\<close>

record page =
  form_exists :: bool
  form_display :: jsstring
  status_exists :: bool
  status_textContent :: jsstring
  status_className :: jsstring
  status_display :: jsstring
  presentList_exists :: bool
  presentList_innerHTML :: jsstring
  timerElement_exists :: bool
  timerElement_textContent :: jsstring
  markButton_disabled :: bool
  markButton_text :: jsstring
  spinner_display :: jsstring
  tips_display :: jsstring
  wifiModal_exists :: bool
  wifiModal_display :: jsstring
  body_modal_open :: bool
  enrollment_value :: jsstring
  nameDisplay_textContent :: jsstring
  nameDisplay_color :: jsstring
  timers :: "timer list"
  next_timer_id :: nat
  debounce_timeout :: "nat option"
  fetches :: "request list"
  geo_calls :: "geo_call list"
  next_watch_id :: nat
  console :: "jsstring list"
  unhandled :: "exn list"
  reload_requested :: bool

text \<open>
  The answers of the outside world to one handler: the geolocation service (first
  request, then the watch), the four endpoints, and the milliseconds left on the
  session clock.
\<close>

record world =
  gps :: geo_outcome
  watch :: geo_outcome
  google :: "google_data fetched"
  mark :: "mark_result fetched"
  present :: "present_data fetched"
  lookup :: "name_data fetched"
  remaining :: int

subsection \<open>Timers\<close>

definition setTimer :: "bool \<Rightarrow> callback \<Rightarrow> nat \<Rightarrow> page \<Rightarrow> nat \<times> page" where
  "setTimer rep cb d p =
     (next_timer_id p,
      p\<lparr>timers := timers p @ [\<lparr>timer_id = next_timer_id p, delay = d, repeating = rep, callback = cb\<rparr>],
        next_timer_id := Suc (next_timer_id p)\<rparr>)"

definition setTimeout :: "callback \<Rightarrow> nat \<Rightarrow> page \<Rightarrow> nat \<times> page" where
  "setTimeout = setTimer False"

definition setInterval :: "callback \<Rightarrow> nat \<Rightarrow> page \<Rightarrow> nat \<times> page" where
  "setInterval = setTimer True"

definition clearTimer :: "nat \<Rightarrow> page \<Rightarrow> page" where
  "clearTimer i p = p\<lparr>timers := filter (\<lambda>t. timer_id t \<noteq> i) (timers p)\<rparr>"

definition do_fetch :: "request \<Rightarrow> page \<Rightarrow> page" where
  "do_fetch r p = p\<lparr>fetches := fetches p @ [r]\<rparr>"

subsection \<open>String helpers\<close>

text \<open>\<open>String.prototype.trim\<close> removes white space and line terminators at both ends.\<close>

definition isWhiteSpace :: "16 word \<Rightarrow> bool" where
  "isWhiteSpace u =
     (u \<in> set [0x9, 0xA, 0xB, 0xC, 0xD, 0x20, 0xA0, 0x1680, 0x2028, 0x2029, 0x202F,
               0x205F, 0x3000, 0xFEFF]
      \<or> (0x2000 \<le> u \<and> u \<le> 0x200A))"

definition trim :: "jsstring \<Rightarrow> jsstring" where
  "trim s = rev (dropWhile isWhiteSpace (rev (dropWhile isWhiteSpace s)))"

fun str_includes :: "jsstring \<Rightarrow> jsstring \<Rightarrow> bool" where
  "str_includes [] sub = (sub = [])"
| "str_includes (x # xs) sub = (take (length sub) (x # xs) = sub \<or> str_includes xs sub)"

section \<open>The student page script\<close>

subsection \<open>Utility functions\<close>

definition showStatusMessage :: "jsstring \<Rightarrow> jsstring \<Rightarrow> page \<Rightarrow> page" where
  "showStatusMessage msg type p =
     (if \<not> status_exists p then p
      else snd (setTimeout HideStatus 6000
                 (p\<lparr>status_textContent := msg,
                    status_className := js ''status-message '' @ type,
                    status_display := js ''block''\<rparr>)))"

definition hideStatus :: "page \<Rightarrow> page" where
  "hideStatus p = p\<lparr>status_display := js ''none''\<rparr>"

definition gps_options :: position_options where
  "gps_options = \<lparr>enableHighAccuracy = True, timeout = Some 8000, maximumAge = Some 0\<rparr>"

definition gps_error_message :: "position_error \<Rightarrow> jsstring" where
  "gps_error_message error =
     js ''GPS Error: '' @
       (if code error = 1 then js ''Permission denied.''
        else if code error = 2 then js ''Position unavailable.''
        else if code error = 3 then js ''Request timed out.''
        else js ''Unknown error.'')"

definition getBrowserGpsLocation :: "window \<Rightarrow> world \<Rightarrow> page \<Rightarrow> (exn + coords) \<times> page" where
  "getBrowserGpsLocation w wd p =
     (if \<not> has_geolocation w
      then (Inl (Rejected (js ''Geolocation is not supported by your browser.'')), p)
      else
        let p1 = p\<lparr>geo_calls := geo_calls p @ [GetCurrentPosition gps_options]\<rparr>
        in case gps wd of
             Inr position \<Rightarrow> (Inr position, p1)
           | Inl error \<Rightarrow> (Inl (Rejected (gps_error_message error)), p1))"

definition google_request :: "jsstring \<Rightarrow> request" where
  "google_request key =
     \<lparr>http_method = js ''POST'',
      url = js ''https://www.googleapis.com/geolocation/v1/geolocate?key='' @ key,
      headers = [(js ''Content-Type'', js ''application/json'')],
      body = NoBody\<rparr>"

definition google_position :: "google_data \<Rightarrow> exn + coords" where
  "google_position data =
     (case location data of
        None \<Rightarrow> Inl (Error (js ''Could not determine location from Google's response.''))
      | Some ll \<Rightarrow>
          (case google_accuracy data of
             None \<Rightarrow> Inl (Error (js ''Could not determine location from Google's response.''))
           | Some a \<Rightarrow>
               if a = 0
               then Inl (Error (js ''Could not determine location from Google's response.''))
               else Inr \<lparr>latitude = fst ll, longitude = snd ll, accuracy = a\<rparr>))"

definition getGoogleApiLocation :: "window \<Rightarrow> world \<Rightarrow> page \<Rightarrow> (exn + coords) \<times> page" where
  "getGoogleApiLocation w wd p =
     (case GOOGLE_MAPS_API_KEY w of
        None \<Rightarrow> (Inl (Error (js ''Configuration error: Google Maps API key is not set.'')), p)
      | Some key \<Rightarrow>
          if key = [] \<or> key = js ''YOUR_GOOGLE_MAPS_API_KEY''
          then (Inl (Error (js ''Configuration error: Google Maps API key is not set.'')), p)
          else
            let p1 = do_fetch (google_request key) p
            in case google wd of
                 Failed \<Rightarrow> (Inl FetchError, p1)
               | Responded ok status d \<Rightarrow>
                   if \<not> ok
                   then (Inl (Error (js ''Google API responded with status '' @ toString10 status)), p1)
                   else (case d of
                           None \<Rightarrow> (Inl JSONError, p1)
                         | Some data \<Rightarrow> (google_position data, p1)))"

definition startRobustTimer :: "jsstring \<Rightarrow> page \<Rightarrow> page" where
  "startRobustTimer endTimeIsoString p =
     (if endTimeIsoString = [] \<or> \<not> timerElement_exists p then p
      else snd (setInterval TimerTick 1000 p))"

text \<open>
  The interval callback of \<open>startRobustTimer\<close>; \<open>remaining\<close> is the difference of the
  two \<open>Date\<close> readings, \<open>timerInterval\<close> the id of the interval itself.
\<close>

definition timerTick :: "nat \<Rightarrow> world \<Rightarrow> page \<Rightarrow> page" where
  "timerTick timerInterval wd p =
     (if remaining wd \<le> 0
      then (clearTimer timerInterval p)
             \<lparr>timerElement_textContent := js ''Session Ended'',
              reload_requested := (form_exists p \<or> reload_requested p)\<rparr>
      else p\<lparr>timerElement_textContent :=
               numberToString (remaining wd div 60000) @ js ''m ''
                 @ padStart 2 48 (numberToString (remaining wd mod 60000 div 1000)) @ js ''s''\<rparr>)"

definition openModal :: "page \<Rightarrow> page" where
  "openModal p =
     p\<lparr>wifiModal_display := (if wifiModal_exists p then js ''block'' else wifiModal_display p),
       body_modal_open := True\<rparr>"

definition closeModal :: "page \<Rightarrow> page" where
  "closeModal p =
     p\<lparr>wifiModal_display := (if wifiModal_exists p then js ''none'' else wifiModal_display p),
       body_modal_open := False\<rparr>"

subsection \<open>\<open>initStudentPage\<close> and its handlers\<close>

definition present_request :: "int \<Rightarrow> request" where
  "present_request sessionId =
     \<lparr>http_method = js ''GET'', url = js ''/api/get_present_students/'' @ numberToString sessionId,
      headers = [], body = NoBody\<rparr>"

definition li :: "jsstring \<Rightarrow> jsstring" where
  "li s = js ''<li>'' @ s @ js ''</li>''"

definition fetchPresentStudents :: "int \<Rightarrow> world \<Rightarrow> page \<Rightarrow> page" where
  "fetchPresentStudents sessionId wd p =
     (if \<not> presentList_exists p then p
      else
        let p1 = do_fetch (present_request sessionId) p
        in case present wd of
             Responded ok status (Some data) \<Rightarrow>
               (if present_success data then
                  (case students data of
                     None \<Rightarrow> p1
                   | Some ss \<Rightarrow>
                       p1\<lparr>presentList_innerHTML :=
                            (if length ss > 0 then concat (map li ss)
                             else js ''<li>No one has marked attendance yet.</li>'')\<rparr>)
                else p1)
           | _ \<Rightarrow> p1\<lparr>console := console p1 @ [js ''Could not fetch present students:'']\<rparr>)"

definition name_request :: "jsstring \<Rightarrow> request" where
  "name_request enrollmentNo =
     \<lparr>http_method = js ''GET'', url = js ''/api/get_student_name/'' @ enrollmentNo,
      headers = [], body = NoBody\<rparr>"

definition truthy :: "jsstring option \<Rightarrow> bool" where
  "truthy v = (case v of None \<Rightarrow> False | Some s \<Rightarrow> s \<noteq> [])"

text \<open>The function that \<open>debounce\<close> wraps: it runs when the 250 ms timeout fires.\<close>

definition enrollmentInput_handler :: "world \<Rightarrow> page \<Rightarrow> page" where
  "enrollmentInput_handler wd p =
     (let enrollmentNo = trim (enrollment_value p)
      in if length enrollmentNo \<ge> 5 then
           let p1 = do_fetch (name_request enrollmentNo)
                      (p\<lparr>nameDisplay_textContent := js ''Searching...'',
                         nameDisplay_color := js ''var(--text-muted)''\<rparr>)
           in case lookup wd of
                Failed \<Rightarrow> p1\<lparr>unhandled := unhandled p1 @ [FetchError]\<rparr>
              | Responded ok status None \<Rightarrow> p1\<lparr>unhandled := unhandled p1 @ [JSONError]\<rparr>
              | Responded ok status (Some data) \<Rightarrow>
                  p1\<lparr>nameDisplay_textContent :=
                       (if truthy (name data) then js ''Name: '' @ the (name data)
                        else js ''Student not found.''),
                     nameDisplay_color :=
                       (if truthy (name data) then js ''var(--primary-blue)''
                        else js ''var(--danger-red)'')\<rparr>
         else p\<lparr>nameDisplay_textContent := []\<rparr>)"

text \<open>The wrapper returned by \<open>debounce\<close>, called on every input event.\<close>

definition enrollmentInput_input :: "jsstring \<Rightarrow> page \<Rightarrow> page" where
  "enrollmentInput_input v p =
     (let p1 = p\<lparr>enrollment_value := v\<rparr>;
          p2 = (case debounce_timeout p1 of None \<Rightarrow> p1 | Some t \<Rightarrow> clearTimer t p1);
          (t', p3) = setTimeout LookupName 250 p2
      in p3\<lparr>debounce_timeout := Some t'\<rparr>)"

definition resetSubmitButton :: "page \<Rightarrow> page" where
  "resetSubmitButton p =
     p\<lparr>markButton_disabled := False, spinner_display := js ''none'',
       markButton_text := js ''Mark My Attendance''\<rparr>"

definition formData :: "window \<Rightarrow> page \<Rightarrow> session_data \<Rightarrow> coords \<Rightarrow> jsstring
    \<Rightarrow> (jsstring \<times> formval) list" where
  "formData w p sd position method =
     [(js ''enrollment_no'', FStr (enrollment_value p)),
      (js ''session_id'', FNum (of_int (session_id sd))),
      (js ''latitude'', FNum (latitude position)),
      (js ''longitude'', FNum (longitude position)),
      (js ''location_method'', FStr method),
      (js ''fingerprint'', FStr (getDeviceFingerprint w))]"

definition mark_request :: "(jsstring \<times> formval) list \<Rightarrow> request" where
  "mark_request fd =
     \<lparr>http_method = js ''POST'', url = js ''/api/mark_attendance'', headers = [], body = FormBody fd\<rparr>"

definition handleAttendanceSubmission ::
    "window \<Rightarrow> world \<Rightarrow> coords \<Rightarrow> jsstring \<Rightarrow> page \<Rightarrow> exn option \<times> page" where
  "handleAttendanceSubmission w wd position method p =
     (case activeSessionDataStudent w of
        None \<Rightarrow> (Some TypeError, p)
      | Some sd \<Rightarrow>
          let p1 = do_fetch (mark_request (formData w p sd position method)) p
          in case mark wd of
               Failed \<Rightarrow> (Some FetchError, p1)
             | Responded ok status None \<Rightarrow> (Some JSONError, p1)
             | Responded ok status (Some result) \<Rightarrow>
                 if success result then
                   (None,
                    fetchPresentStudents (session_id sd) wd
                      ((showStatusMessage (message_of result) (category result) p1)
                         \<lparr>form_display := js ''none''\<rparr>))
                 else if category result = js ''retry_high_accuracy'' then
                   (None, openModal (showStatusMessage (message_of result) (js ''info'') p1))
                 else
                   let p2 = resetSubmitButton
                              (showStatusMessage (message_of result) (category result) p1)
                   in (None,
                       if str_includes (message_of result) (js ''away'')
                       then p2\<lparr>tips_display := js ''block''\<rparr> else p2))"

definition gps_failed :: "page \<Rightarrow> page" where
  "gps_failed p =
     openModal
       (showStatusMessage (js ''GPS failed. Please enable Wi-Fi for a more precise check.'')
          (js ''info'')
          (p\<lparr>console := console p @ [js ''Initial GPS failed:'']\<rparr>))"

definition attendanceForm_submit :: "window \<Rightarrow> world \<Rightarrow> page \<Rightarrow> page" where
  "attendanceForm_submit w wd p =
     (let p1 = p\<lparr>markButton_disabled := True, spinner_display := js ''inline-block'',
                 markButton_text := js ''Getting GPS Location...'',
                 tips_display := js ''none''\<rparr>
      in case getBrowserGpsLocation w wd p1 of
           (Inl gpsError, p2) \<Rightarrow> gps_failed p2
         | (Inr gpsPosition, p2) \<Rightarrow>
             (case handleAttendanceSubmission w wd gpsPosition (js ''gps'') p2 of
                (Some gpsError, p3) \<Rightarrow> gps_failed p3
              | (None, p3) \<Rightarrow> p3))"

definition google_failed :: "page \<Rightarrow> page" where
  "google_failed p =
     resetSubmitButton
       ((showStatusMessage
           (js ''Advanced location check failed. Please check your connection.'')
           (js ''error'') p)
          \<lparr>tips_display := js ''block''\<rparr>)"

definition retryWithGoogleBtn_click :: "window \<Rightarrow> world \<Rightarrow> page \<Rightarrow> page" where
  "retryWithGoogleBtn_click w wd p =
     (let p1 = (closeModal p)\<lparr>markButton_text := js ''Getting Wi-Fi Location...''\<rparr>
      in case getGoogleApiLocation w wd p1 of
           (Inl googleError, p2) \<Rightarrow> google_failed p2
         | (Inr googlePosition, p2) \<Rightarrow>
             (case handleAttendanceSubmission w wd googlePosition (js ''google'') p2 of
                (Some googleError, p3) \<Rightarrow> google_failed p3
              | (None, p3) \<Rightarrow> p3))"

definition initStudentPage :: "window \<Rightarrow> world \<Rightarrow> page \<Rightarrow> page" where
  "initStudentPage w wd p =
     (if \<not> form_exists p then p
      else case activeSessionDataStudent w of
             None \<Rightarrow> p
           | Some sd \<Rightarrow>
               if session_id sd = 0 then p
               else
                 let sessionId = session_id sd;
                     p1 = startRobustTimer (end_time sd) p;
                     p2 = fetchPresentStudents sessionId wd p1
                 in snd (setInterval (FetchPresent sessionId) 10000 p2))"

subsection \<open>Events\<close>


definition run_callback :: "window \<Rightarrow> world \<Rightarrow> nat \<Rightarrow> callback \<Rightarrow> page \<Rightarrow> page" where
  "run_callback w wd i cb p =
     (case cb of
        HideStatus \<Rightarrow> hideStatus p
      | FetchPresent sessionId \<Rightarrow> fetchPresentStudents sessionId wd p
      | LookupName \<Rightarrow> enrollmentInput_handler wd p
      | TimerTick \<Rightarrow> timerTick i wd p)"

definition fire :: "window \<Rightarrow> world \<Rightarrow> nat \<Rightarrow> page \<Rightarrow> page" where
  "fire w wd i p =
     (case find (\<lambda>t. timer_id t = i) (timers p) of
        None \<Rightarrow> p
      | Some t \<Rightarrow>
          run_callback w wd i (callback t) (if repeating t then p else clearTimer i p))"



section \<open>The earlier revisions of the script in \<open>static/main.js\<close>\<close>

text \<open>
  \<open>static/main.js\<close> holds two revisions of the script, followed by the database
  schema. Functions of the first revision (lines 1 to 393) carry the suffix \<open>_r1\<close>,
  those of the second (lines 393 to 739) the suffix \<open>_r2\<close>. \<open>showStatusMessage\<close> and
  \<open>fetchPresentStudents\<close> of the first revision are those of the student page script.
\<close>

subsection \<open>Second revision: browser position, then a high-accuracy watch\<close>

definition showStatusMessage_r2 :: "jsstring \<Rightarrow> jsstring \<Rightarrow> page \<Rightarrow> page" where
  "showStatusMessage_r2 msg type p =
     (if \<not> status_exists p then p
      else snd (setTimeout HideStatus 5000
                 (p\<lparr>status_textContent := msg,
                    status_className := js ''status-message '' @ type,
                    status_display := js ''block''\<rparr>)))"

definition low_accuracy_options :: position_options where
  "low_accuracy_options = \<lparr>enableHighAccuracy = False, timeout = Some 5000, maximumAge = None\<rparr>"

definition high_accuracy_options :: position_options where
  "high_accuracy_options = \<lparr>enableHighAccuracy = True, timeout = Some 15000, maximumAge = Some 0\<rparr>"

definition watchPosition :: "position_options \<Rightarrow> page \<Rightarrow> nat \<times> page" where
  "watchPosition opts p =
     (next_watch_id p,
      p\<lparr>geo_calls := geo_calls p @ [WatchPosition (next_watch_id p) opts],
        next_watch_id := Suc (next_watch_id p)\<rparr>)"

definition clearWatch :: "nat \<Rightarrow> page \<Rightarrow> page" where
  "clearWatch i p = p\<lparr>geo_calls := geo_calls p @ [ClearWatch i]\<rparr>"

definition getAccurateLocation_r2 ::
    "window \<Rightarrow> (coords \<Rightarrow> page \<Rightarrow> page) \<Rightarrow> (jsstring \<Rightarrow> page \<Rightarrow> page) \<Rightarrow> world \<Rightarrow> page \<Rightarrow> page" where
  "getAccurateLocation_r2 w successCallback errorCallback wd p =
     (let p1 = showStatusMessage_r2 (js ''Getting location...'') (js ''info'') p
      in if \<not> has_geolocation w then p1\<lparr>unhandled := unhandled p1 @ [TypeError]\<rparr>
         else
           let p2 = p1\<lparr>geo_calls := geo_calls p1 @ [GetCurrentPosition low_accuracy_options]\<rparr>
           in case gps wd of
                Inr pos \<Rightarrow>
                  if accuracy pos < 150 then successCallback pos p2
                  else
                    let p3 = showStatusMessage_r2 (js ''Improving location accuracy...'')
                               (js ''info'') p2;
                        (watchId, p4) = watchPosition high_accuracy_options p3
                    in (case watch wd of
                          Inr highAccPos \<Rightarrow> successCallback highAccPos (clearWatch watchId p4)
                        | Inl err \<Rightarrow>
                            errorCallback
                              (js ''Could not get an accurate location: '' @ message err)
                              (clearWatch watchId p4))
              | Inl err \<Rightarrow> errorCallback (js ''Could not get location: '' @ message err) p2)"

definition formData_r2 :: "page \<Rightarrow> session_data \<Rightarrow> coords \<Rightarrow> (jsstring \<times> formval) list" where
  "formData_r2 p sd position =
     [(js ''enrollment_no'', FStr (enrollment_value p)),
      (js ''session_id'', FNum (of_int (session_id sd))),
      (js ''latitude'', FNum (latitude position)),
      (js ''longitude'', FNum (longitude position))]"

definition submit_success_r2 :: "window \<Rightarrow> world \<Rightarrow> coords \<Rightarrow> page \<Rightarrow> page" where
  "submit_success_r2 w wd position p =
     (let p1 = p\<lparr>markButton_text := js ''Submitting...''\<rparr>
      in case activeSessionDataStudent w of
           None \<Rightarrow> p1\<lparr>unhandled := unhandled p1 @ [TypeError]\<rparr>
         | Some sd \<Rightarrow>
             let p2 = do_fetch (mark_request (formData_r2 p1 sd position)) p1
             in case mark wd of
                  Failed \<Rightarrow> p2\<lparr>unhandled := unhandled p2 @ [FetchError]\<rparr>
                | Responded ok status None \<Rightarrow> p2\<lparr>unhandled := unhandled p2 @ [JSONError]\<rparr>
                | Responded ok status (Some result) \<Rightarrow>
                    let p3 = showStatusMessage_r2 (message_of result) (category result) p2
                    in if success result then p3\<lparr>form_display := js ''none''\<rparr>
                       else p3\<lparr>markButton_disabled := False,
                               markButton_text := js ''Mark My Attendance''\<rparr>)"

definition submit_error_r2 :: "jsstring \<Rightarrow> page \<Rightarrow> page" where
  "submit_error_r2 error p =
     (showStatusMessage_r2 error (js ''error'') p)
       \<lparr>markButton_disabled := False, markButton_text := js ''Mark My Attendance''\<rparr>"

definition attendanceForm_submit_r2 :: "window \<Rightarrow> world \<Rightarrow> page \<Rightarrow> page" where
  "attendanceForm_submit_r2 w wd p =
     getAccurateLocation_r2 w (submit_success_r2 w wd) submit_error_r2 wd
       (p\<lparr>markButton_disabled := True, markButton_text := js ''Verifying...''\<rparr>)"

subsection \<open>First revision: the external geolocation API only\<close>

definition google_request_r1 :: "jsstring \<Rightarrow> request" where
  "google_request_r1 apiKey =
     \<lparr>http_method = js ''POST'',
      url = js ''https://www.googleapis.com/geolocation/v1/geolocate?key='' @ apiKey,
      headers = [(js ''Content-Type'', js ''application/json'')],
      body = JsonBody (js ''{}'')\<rparr>"

text \<open>
  The position built from the response carries \<open>data.accuracy\<close>, which no caller of this
  revision reads; an absent accuracy is written 0 here.
\<close>

definition getAccurateLocation_r1 ::
    "window \<Rightarrow> (coords \<Rightarrow> page \<Rightarrow> page) \<Rightarrow> (jsstring \<Rightarrow> page \<Rightarrow> page) \<Rightarrow> world \<Rightarrow> page \<Rightarrow> page" where
  "getAccurateLocation_r1 w successCallback errorCallback wd p =
     (if \<not> truthy (GOOGLE_MAPS_API_KEY w)
      then errorCallback (js ''Google Maps API key is missing.'') p
      else
        let p1 = do_fetch (google_request_r1 (the (GOOGLE_MAPS_API_KEY w))) p
        in case google wd of
             Responded ok status (Some data) \<Rightarrow>
               if ok then
                 (case location data of
                    None \<Rightarrow>
                      errorCallback
                        (js ''A network error occurred. Check your internet connection.'') p1
                  | Some ll \<Rightarrow>
                      successCallback
                        \<lparr>latitude = fst ll, longitude = snd ll,
                         accuracy = (case google_accuracy data of None \<Rightarrow> 0 | Some a \<Rightarrow> a)\<rparr>
                        (p1\<lparr>console := console p1
                              @ [js ''Location obtained from Google Maps API:'']\<rparr>))
               else
                 errorCallback
                   (if truthy (error_message data) then the (error_message data)
                    else js ''An unknown error occurred with the Geolocation API.'') p1
           | _ \<Rightarrow>
               errorCallback
                 (js ''A network error occurred. Check your internet connection.'') p1)"

definition submit_success_r1 :: "window \<Rightarrow> world \<Rightarrow> coords \<Rightarrow> page \<Rightarrow> page" where
  "submit_success_r1 w wd position p =
     (let p1 = p\<lparr>markButton_text := js ''Submitting...''\<rparr>
      in case activeSessionDataStudent w of
           None \<Rightarrow> p1\<lparr>unhandled := unhandled p1 @ [TypeError]\<rparr>
         | Some sd \<Rightarrow>
             let p2 = do_fetch (mark_request (formData_r2 p1 sd position)) p1
             in case mark wd of
                  Failed \<Rightarrow> p2\<lparr>unhandled := unhandled p2 @ [FetchError]\<rparr>
                | Responded ok status None \<Rightarrow> p2\<lparr>unhandled := unhandled p2 @ [JSONError]\<rparr>
                | Responded ok status (Some result) \<Rightarrow>
                    let p3 = showStatusMessage (message_of result) (category result) p2
                    in if success result
                       then fetchPresentStudents (session_id sd) wd (p3\<lparr>form_display := js ''none''\<rparr>)
                       else
                         let p4 = p3\<lparr>markButton_disabled := False, spinner_display := js ''none'',
                                      markButton_text := js ''Mark My Attendance''\<rparr>
                         in if str_includes (message_of result) (js ''away'')
                            then p4\<lparr>tips_display := js ''block''\<rparr> else p4)"

definition submit_error_r1 :: "jsstring \<Rightarrow> page \<Rightarrow> page" where
  "submit_error_r1 error p =
     (showStatusMessage error (js ''error'') p)
       \<lparr>markButton_disabled := False, spinner_display := js ''none'',
        markButton_text := js ''Mark My Attendance'', tips_display := js ''block''\<rparr>"

definition attendanceForm_submit_r1 :: "window \<Rightarrow> world \<Rightarrow> page \<Rightarrow> page" where
  "attendanceForm_submit_r1 w wd p =
     getAccurateLocation_r1 w (submit_success_r1 w wd) submit_error_r1 wd
       (p\<lparr>markButton_disabled := True, spinner_display := js ''inline-block'',
          markButton_text := js ''Getting Location...'', tips_display := js ''none''\<rparr>)"

text \<open>The function wrapped by \<open>debounce\<close> (300 ms) in both revisions.\<close>

definition enrollmentInput_handler_r1 :: "world \<Rightarrow> page \<Rightarrow> page" where
  "enrollmentInput_handler_r1 wd p =
     (let enrollmentNo = trim (enrollment_value p)
      in if length enrollmentNo \<ge> 5 then
           let p1 = do_fetch (name_request enrollmentNo) p
           in case lookup wd of
                Failed \<Rightarrow> p1\<lparr>unhandled := unhandled p1 @ [FetchError]\<rparr>
              | Responded ok status None \<Rightarrow> p1\<lparr>unhandled := unhandled p1 @ [JSONError]\<rparr>
              | Responded ok status (Some data) \<Rightarrow>
                  p1\<lparr>nameDisplay_textContent :=
                       (if truthy (name data) then js ''Name: '' @ the (name data)
                        else js ''Student not found.''),
                     nameDisplay_color :=
                       (if truthy (name data) then js ''var(--primary-blue)''
                        else js ''var(--danger-red)'')\<rparr>
         else p\<lparr>nameDisplay_textContent := []\<rparr>)"

section \<open>The attendance store\<close>

text \<open>
  The two tables of the schema that carry uniqueness constraints, with the columns as
  declared: nullable columns are options, \<open>id SERIAL PRIMARY KEY\<close> takes the next value
  of the table's sequence. The parent tables \<open>attendance_sessions\<close> and \<open>students\<close> are
  kept as their lists of ids, which is what the foreign keys read. A \<open>UNIQUE\<close>
  constraint rejects a row that agrees with an existing row on all its columns, none of
  them NULL. A statement that fails changes no table; the sequence value it took is spent.
\<close>

datatype sql_error = NotNullViolation | UniqueViolation | ForeignKeyViolation

record attendance_record =
  ar_id :: int
  ar_session_id :: "int option"
  ar_student_id :: "int option"
  ar_timestamp :: int
  ar_latitude :: "real option"
  ar_longitude :: "real option"
  ar_ip_address :: "string option"

record device_fingerprint =
  df_id :: int
  df_session_id :: "int option"
  df_student_id :: "int option"
  df_fingerprint :: string

record store =
  attendance_sessions :: "int list"
  students_ids :: "int list"
  attendance_records :: "attendance_record list"
  attendance_records_id_seq :: int
  session_device_fingerprints :: "device_fingerprint list"
  session_device_fingerprints_id_seq :: int

definition empty_store :: store where
  "empty_store =
     \<lparr>attendance_sessions = [], students_ids = [], attendance_records = [],
      attendance_records_id_seq = 1, session_device_fingerprints = [],
      session_device_fingerprints_id_seq = 1\<rparr>"

definition references :: "int option \<Rightarrow> int list \<Rightarrow> bool" where
  "references v ids = (case v of None \<Rightarrow> True | Some i \<Rightarrow> i \<in> set ids)"

text \<open>Two pairs of column values collide under \<open>UNIQUE\<close>.\<close>

definition collide :: "'a option \<Rightarrow> 'b option \<Rightarrow> 'a option \<Rightarrow> 'b option \<Rightarrow> bool" where
  "collide a b a' b' = (a \<noteq> None \<and> b \<noteq> None \<and> a = a' \<and> b = b')"

record attendance_values =
  v_session_id :: "int option"
  v_student_id :: "int option"
  v_timestamp :: "int option"
  v_latitude :: "real option"
  v_longitude :: "real option"
  v_ip_address :: "string option"

definition insert_attendance_record :: "attendance_values \<Rightarrow> store \<Rightarrow> sql_error option \<times> store" where
  "insert_attendance_record v st =
     (let st1 = st\<lparr>attendance_records_id_seq := attendance_records_id_seq st + 1\<rparr>
      in case v_timestamp v of
           None \<Rightarrow> (Some NotNullViolation, st1)
         | Some ts \<Rightarrow>
             if list_ex (\<lambda>r. collide (ar_session_id r) (ar_student_id r)
                                (v_session_id v) (v_student_id v))
                  (attendance_records st)
             then (Some UniqueViolation, st1)
             else if \<not> references (v_session_id v) (attendance_sessions st)
                       \<or> \<not> references (v_student_id v) (students_ids st)
             then (Some ForeignKeyViolation, st1)
             else
               (None,
                st1\<lparr>attendance_records := attendance_records st @
                       [\<lparr>ar_id = attendance_records_id_seq st,
                         ar_session_id = v_session_id v, ar_student_id = v_student_id v,
                         ar_timestamp = ts, ar_latitude = v_latitude v,
                         ar_longitude = v_longitude v, ar_ip_address = v_ip_address v\<rparr>]\<rparr>))"

text \<open>\<open>UPDATE attendance_records SET session_id = s, student_id = t WHERE id = i\<close>\<close>

definition update_attendance_record ::
    "int \<Rightarrow> int option \<Rightarrow> int option \<Rightarrow> store \<Rightarrow> sql_error option \<times> store" where
  "update_attendance_record i s t st =
     (if \<not> list_ex (\<lambda>r. ar_id r = i) (attendance_records st) then (None, st)
      else if list_ex (\<lambda>r. ar_id r \<noteq> i \<and> collide (ar_session_id r) (ar_student_id r) s t)
                (attendance_records st)
      then (Some UniqueViolation, st)
      else if \<not> references s (attendance_sessions st) \<or> \<not> references t (students_ids st)
      then (Some ForeignKeyViolation, st)
      else
        (None,
         st\<lparr>attendance_records :=
              map (\<lambda>r. if ar_id r = i then r\<lparr>ar_session_id := s, ar_student_id := t\<rparr> else r)
                (attendance_records st)\<rparr>))"

definition delete_attendance_record :: "int \<Rightarrow> store \<Rightarrow> sql_error option \<times> store" where
  "delete_attendance_record i st =
     (None, st\<lparr>attendance_records := filter (\<lambda>r. ar_id r \<noteq> i) (attendance_records st)\<rparr>)"

record fingerprint_values =
  fv_session_id :: "int option"
  fv_student_id :: "int option"
  fv_fingerprint :: "string option"

definition insert_device_fingerprint :: "fingerprint_values \<Rightarrow> store \<Rightarrow> sql_error option \<times> store" where
  "insert_device_fingerprint v st =
     (let st1 = st\<lparr>session_device_fingerprints_id_seq := session_device_fingerprints_id_seq st + 1\<rparr>
      in case fv_fingerprint v of
           None \<Rightarrow> (Some NotNullViolation, st1)
         | Some fp \<Rightarrow>
             if list_ex (\<lambda>r. collide (df_session_id r) (df_student_id r)
                                (fv_session_id v) (fv_student_id v)
                              \<or> collide (df_session_id r) (Some (df_fingerprint r))
                                   (fv_session_id v) (Some fp))
                  (session_device_fingerprints st)
             then (Some UniqueViolation, st1)
             else if \<not> references (fv_session_id v) (attendance_sessions st)
                       \<or> \<not> references (fv_student_id v) (students_ids st)
             then (Some ForeignKeyViolation, st1)
             else
               (None,
                st1\<lparr>session_device_fingerprints := session_device_fingerprints st @
                       [\<lparr>df_id = session_device_fingerprints_id_seq st,
                         df_session_id = fv_session_id v, df_student_id = fv_student_id v,
                         df_fingerprint = fp\<rparr>]\<rparr>))"

definition delete_device_fingerprint :: "int \<Rightarrow> store \<Rightarrow> sql_error option \<times> store" where
  "delete_device_fingerprint i st =
     (None,
      st\<lparr>session_device_fingerprints :=
           filter (\<lambda>r. df_id r \<noteq> i) (session_device_fingerprints st)\<rparr>)"

definition insert_session :: "int \<Rightarrow> store \<Rightarrow> sql_error option \<times> store" where
  "insert_session i st =
     (if i \<in> set (attendance_sessions st) then (Some UniqueViolation, st)
      else (None, st\<lparr>attendance_sessions := attendance_sessions st @ [i]\<rparr>))"

definition insert_student :: "int \<Rightarrow> store \<Rightarrow> sql_error option \<times> store" where
  "insert_student i st =
     (if i \<in> set (students_ids st) then (Some UniqueViolation, st)
      else (None, st\<lparr>students_ids := students_ids st @ [i]\<rparr>))"

text \<open>Deleting a session cascades to both tables.\<close>

definition delete_session :: "int \<Rightarrow> store \<Rightarrow> sql_error option \<times> store" where
  "delete_session i st =
     (None,
      st\<lparr>attendance_sessions := filter (\<lambda>j. j \<noteq> i) (attendance_sessions st),
         attendance_records :=
           filter (\<lambda>r. ar_session_id r \<noteq> Some i) (attendance_records st),
         session_device_fingerprints :=
           filter (\<lambda>r. df_session_id r \<noteq> Some i) (session_device_fingerprints st)\<rparr>)"

text \<open>
  Deleting a student cascades to the fingerprints; an attendance record that refers to
  the student blocks it.
\<close>

definition delete_student :: "int \<Rightarrow> store \<Rightarrow> sql_error option \<times> store" where
  "delete_student i st =
     (if list_ex (\<lambda>r. ar_student_id r = Some i) (attendance_records st)
      then (Some ForeignKeyViolation, st)
      else
        (None,
         st\<lparr>students_ids := filter (\<lambda>j. j \<noteq> i) (students_ids st),
            session_device_fingerprints :=
              filter (\<lambda>r. df_student_id r \<noteq> Some i) (session_device_fingerprints st)\<rparr>))"

datatype statement =
    InsertRecord attendance_values
  | UpdateRecord int "int option" "int option"
  | DeleteRecord int
  | InsertFingerprint fingerprint_values
  | DeleteFingerprint int
  | InsertSession int
  | InsertStudent int
  | DeleteSession int
  | DeleteStudent int

fun execute :: "statement \<Rightarrow> store \<Rightarrow> sql_error option \<times> store" where
  "execute (InsertRecord v) st = insert_attendance_record v st"
| "execute (UpdateRecord i s t) st = update_attendance_record i s t st"
| "execute (DeleteRecord i) st = delete_attendance_record i st"
| "execute (InsertFingerprint v) st = insert_device_fingerprint v st"
| "execute (DeleteFingerprint i) st = delete_device_fingerprint i st"
| "execute (InsertSession i) st = insert_session i st"
| "execute (InsertStudent i) st = insert_student i st"
| "execute (DeleteSession i) st = delete_session i st"
| "execute (DeleteStudent i) st = delete_student i st"

fun execute_all :: "statement list \<Rightarrow> store \<Rightarrow> store" where
  "execute_all [] st = st"
| "execute_all (q # qs) st = execute_all qs (snd (execute q st))"

text \<open>The rows of a session and student, and of a session and fingerprint.\<close>

definition records_of :: "int \<Rightarrow> int \<Rightarrow> store \<Rightarrow> attendance_record list" where
  "records_of s t st =
     filter (\<lambda>r. ar_session_id r = Some s \<and> ar_student_id r = Some t) (attendance_records st)"

definition fingerprints_of_student :: "int \<Rightarrow> int \<Rightarrow> store \<Rightarrow> device_fingerprint list" where
  "fingerprints_of_student s t st =
     filter (\<lambda>r. df_session_id r = Some s \<and> df_student_id r = Some t)
       (session_device_fingerprints st)"

definition fingerprints_of_device :: "int \<Rightarrow> string \<Rightarrow> store \<Rightarrow> device_fingerprint list" where
  "fingerprints_of_device s fp st =
     filter (\<lambda>r. df_session_id r = Some s \<and> df_fingerprint r = fp)
       (session_device_fingerprints st)"

text \<open>What holds of the two tables after every statement.\<close>

definition records_invariant :: "store \<Rightarrow> bool" where
  "records_invariant st =
     (distinct (map ar_id (attendance_records st))
      \<and> (\<forall>r \<in> set (attendance_records st). ar_id r < attendance_records_id_seq st)
      \<and> (\<forall>s t. length (records_of s t st) \<le> 1))"

definition fingerprints_invariant :: "store \<Rightarrow> bool" where
  "fingerprints_invariant st =
     ((\<forall>s t. length (fingerprints_of_student s t st) \<le> 1)
      \<and> (\<forall>s fp. length (fingerprints_of_device s fp st) \<le> 1))"

section \<open>Auxiliary predicates\<close>

text \<open>Two pages with the same timers, unhandled exceptions and status element.\<close>

definition same_runtime :: "page \<Rightarrow> page \<Rightarrow> bool" where
  "same_runtime p q =
     (timers q = timers p \<and> next_timer_id q = next_timer_id p
      \<and> unhandled q = unhandled p \<and> status_exists q = status_exists p)"


text \<open>
  The timer \<open>t\<close> is registered on a page that has the list element, timer ids are
  distinct and below the next id, and the id kept by \<open>debounce\<close> is not that of \<open>t\<close>.
\<close>

definition polling :: "timer \<Rightarrow> page \<Rightarrow> bool" where
  "polling t q =
     (t \<in> set (timers q) \<and> presentList_exists q
      \<and> distinct (map timer_id (timers q))
      \<and> (\<forall>u \<in> set (timers q). timer_id u < next_timer_id q)
      \<and> (case debounce_timeout q of
            None \<Rightarrow> True
          | Some d \<Rightarrow> d < next_timer_id q \<and> d \<noteq> timer_id t))"

section \<open>Example inputs\<close>

definition example_window :: window where
  "example_window =
     \<lparr>userAgent = js ''Mozilla/5.0'', screen_width = 1920, screen_height = 1080,
      screen_colorDepth = 24, timezoneOffset = - 330, language = js ''en-US'',
      platform = js ''Win32'', has_geolocation = True, GOOGLE_MAPS_API_KEY = None,
      activeSessionDataStudent = Some \<lparr>session_id = 7, end_time = js ''2025-01-01T10:00:00Z''\<rparr>\<rparr>"

definition example_values :: attendance_values where
  "example_values =
     \<lparr>v_session_id = Some 1, v_student_id = Some 2, v_timestamp = Some 1700000000,
      v_latitude = Some 23.8244, v_longitude = Some 78.7706, v_ip_address = Some ''10.0.0.7''\<rparr>"

definition example_fingerprint :: fingerprint_values where
  "example_fingerprint =
     \<lparr>fv_session_id = Some 1, fv_student_id = Some 2, fv_fingerprint = Some ''ab12''\<rparr>"

definition example_page :: page where
  "example_page =
     \<lparr>form_exists = True, form_display = js ''block'',
      status_exists = True, status_textContent = [], status_className = js ''status-message'',
      status_display = js ''none'',
      presentList_exists = True, presentList_innerHTML = [],
      timerElement_exists = True, timerElement_textContent = [],
      markButton_disabled = False, markButton_text = js ''Mark My Attendance'',
      spinner_display = js ''none'', tips_display = js ''none'',
      wifiModal_exists = True, wifiModal_display = js ''none'', body_modal_open = False,
      enrollment_value = js ''Y24120001'',
      nameDisplay_textContent = [], nameDisplay_color = [],
      timers = [], next_timer_id = 1, debounce_timeout = None,
      fetches = [], geo_calls = [], next_watch_id = 1, console = [], unhandled = [],
      reload_requested = False\<rparr>"

definition example_world :: world where
  "example_world =
     \<lparr>gps = Inr \<lparr>latitude = 23.8244, longitude = 78.7706, accuracy = 150\<rparr>,
      watch = Inr \<lparr>latitude = 23.8245, longitude = 78.7707, accuracy = 12\<rparr>,
      google = Failed,
      mark = Responded True 200
               (Some \<lparr>success = True, message_of = js ''Attendance marked'',
                       category = js ''success''\<rparr>),
      present = Failed,
      lookup = Failed,
      remaining = 60000\<rparr>"

definition denied :: position_error where
  "denied = \<lparr>code = 1, message = js ''User denied Geolocation''\<rparr>"

definition timed_out :: position_error where
  "timed_out = \<lparr>code = 3, message = js ''Timeout expired''\<rparr>"

definition watch_fails_world :: world where
  "watch_fails_world = example_world\<lparr>watch := Inl timed_out\<rparr>"

definition google_refusal :: google_data where
  "google_refusal =
     \<lparr>location = None, google_accuracy = None,
      error_message = Some (js ''API key not valid.'')\<rparr>"

definition google_refuses_world :: world where
  "google_refuses_world = example_world\<lparr>google := Responded False 403 (Some google_refusal)\<rparr>"

definition reloading_world :: world where
  "reloading_world = example_world\<lparr>remaining := 0\<rparr>"



definition keyed_window :: window where
  "keyed_window = example_window\<lparr>GOOGLE_MAPS_API_KEY := Some (js ''AIza'')\<rparr>"




section \<open>The fingerprint is a SHA-256 digest in hexadecimal\<close>

lemma length_word_bytes: "length (word_bytes x) = 4"
  by (simp add: word_bytes_def)

lemma length_digest_SHA256: "length (digest_SHA256 m) = 32"
  by (simp add: digest_SHA256_def Let_def length_word_bytes)

text \<open>The digest of \<open>abc\<close>, as published with the standard.\<close>

lemma digest_SHA256_abc:
  "digest_SHA256 (encode (js ''abc'')) =
     [186, 120, 22, 191, 143, 1, 207, 234, 65, 65, 64, 222, 93, 174, 34, 35,
      176, 3, 97, 163, 150, 23, 122, 156, 180, 16, 255, 97, 242, 0, 21, 173]"
  by code_simp

lemma hex_digit_hexchars: "d < 16 \<Longrightarrow> hex_digit d \<in> set (js ''0123456789abcdef'')"
proof -
  assume "d < 16"
  then have "d \<in> set [0..<16]" by simp
  moreover have "\<forall>d \<in> set [0..<16]. hex_digit d \<in> set (js ''0123456789abcdef'')"
    by code_simp
  ultimately show ?thesis by blast
qed

lemma toString16_byte:
  assumes "n < 256"
  shows "length (toString16 n) \<le> 2 \<and> set (toString16 n) \<subseteq> set (js ''0123456789abcdef'')"
proof (cases "n < 16")
  case True
  then show ?thesis using hex_digit_hexchars [of n] by (simp add: toString16.simps [of n])
next
  case False
  with assms have d: "n div 16 < 16" by simp
  have m: "n mod 16 < 16" by simp
  have "toString16 n = [hex_digit (n div 16), hex_digit (n mod 16)]"
    using False d by (simp add: toString16.simps [of n] toString16.simps [of "n div 16"])
  then show ?thesis using hex_digit_hexchars [OF d] hex_digit_hexchars [OF m] by simp
qed

lemma zero_in_hex: "(48 :: 16 word) \<in> set (js ''0123456789abcdef'')"
  by (simp add: js_def)

lemma byteToHex_hex:
  "length (byteToHex b) = 2 \<and> set (byteToHex b) \<subseteq> set (js ''0123456789abcdef'')"
proof -
  have "unat b < 256" using unsigned_less [of b] by simp
  from toString16_byte [OF this] have l: "length (toString16 (unat b)) \<le> 2"
    and s: "set (toString16 (unat b)) \<subseteq> set (js ''0123456789abcdef'')" by simp_all
  have ne: "toString16 (unat b) \<noteq> []" by (simp add: toString16.simps [of "unat b"])
  then have "length (toString16 (unat b)) \<noteq> 0" by simp
  with l have "length (byteToHex b) = 2" by (simp add: byteToHex_def padStart_def)
  moreover have "set (byteToHex b) \<subseteq> set (js ''0123456789abcdef'')"
    using s zero_in_hex by (auto simp: byteToHex_def padStart_def)
  ultimately show ?thesis by simp
qed

lemma length_concat_const:
  "\<forall>x. length (f x) = k \<Longrightarrow> length (concat (map f xs)) = k * length xs"
  by (induction xs) simp_all

lemma set_concat_subset:
  "\<forall>x. set (f x) \<subseteq> H \<Longrightarrow> set (concat (map f xs)) \<subseteq> H"
  by (induction xs) simp_all

text \<open>
  Claim C10. \<open>getDeviceFingerprint\<close> is deterministic: two environments with the same
  userAgent, screen width and height, colour depth, timezone offset, language and
  platform give the same fingerprint, whatever else differs; and the fingerprint is
  always 64 characters, each a lowercase hexadecimal digit.
\<close>

theorem fingerprint_deterministic_hex:
  "(userAgent w = userAgent w' \<and> screen_width w = screen_width w'
     \<and> screen_height w = screen_height w' \<and> screen_colorDepth w = screen_colorDepth w'
     \<and> timezoneOffset w = timezoneOffset w' \<and> language w = language w'
     \<and> platform w = platform w'
     \<longrightarrow> getDeviceFingerprint w = getDeviceFingerprint w')
   \<and> length (getDeviceFingerprint w) = 64
   \<and> set (getDeviceFingerprint w) \<subseteq> set (js ''0123456789abcdef'')"
proof (intro conjI impI)
  assume "userAgent w = userAgent w' \<and> screen_width w = screen_width w'
     \<and> screen_height w = screen_height w' \<and> screen_colorDepth w = screen_colorDepth w'
     \<and> timezoneOffset w = timezoneOffset w' \<and> language w = language w'
     \<and> platform w = platform w'"
  then have "components w = components w'" by (simp add: components_def)
  then show "getDeviceFingerprint w = getDeviceFingerprint w'"
    by (simp add: getDeviceFingerprint_def)
next
  have "\<forall>b. length (byteToHex b) = 2" by (simp add: byteToHex_hex)
  from length_concat_const [OF this]
  show "length (getDeviceFingerprint w) = 64"
    by (simp add: getDeviceFingerprint_def Let_def length_digest_SHA256)
next
  have "\<forall>b. set (byteToHex b) \<subseteq> set (js ''0123456789abcdef'')"
    using byteToHex_hex by blast
  from set_concat_subset [OF this]
  show "set (getDeviceFingerprint w) \<subseteq> set (js ''0123456789abcdef'')"
    unfolding getDeviceFingerprint_def Let_def .
qed

theorem fingerprint_deterministic_hex_witness:
  "getDeviceFingerprint (example_window\<lparr>GOOGLE_MAPS_API_KEY := Some (js ''key''),
       has_geolocation := False, activeSessionDataStudent := None\<rparr>)
     = getDeviceFingerprint example_window
   \<and> length (getDeviceFingerprint example_window) = 64"
  using fingerprint_deterministic_hex
    [of "example_window\<lparr>GOOGLE_MAPS_API_KEY := Some (js ''key''),
           has_geolocation := False, activeSessionDataStudent := None\<rparr>" example_window]
    fingerprint_deterministic_hex [of example_window example_window]
  by simp

section \<open>Uniqueness in the attendance store\<close>

lemma length_filter_filter_le:
  "length (filter P (filter Q xs)) \<le> length (filter P xs)"
  by (induction xs) auto

lemma length_filter_le_1_filter:
  "length (filter P xs) \<le> 1 \<Longrightarrow> length (filter P (filter Q xs)) \<le> 1"
  using length_filter_filter_le [of P Q xs] by simp

lemma distinct_key_filter_le_1:
  "distinct (map g xs) \<Longrightarrow> length (filter (\<lambda>r. g r = i) xs) \<le> 1"
proof (induction xs)
  case Nil
  then show ?case by simp
next
  case (Cons x xs)
  show ?case
  proof (cases "g x = i")
    case True
    with Cons.prems have "i \<notin> g ` set xs" by simp
    then have "\<forall>r \<in> set xs. g r \<noteq> i" by blast
    then have "filter (\<lambda>r. g r = i) xs = []" by (simp add: filter_empty_conv)
    with True show ?thesis by simp
  next
    case False
    with Cons show ?thesis by simp
  qed
qed

lemma length_filter_mono:
  "(\<And>x. x \<in> set xs \<Longrightarrow> P x \<Longrightarrow> Q x) \<Longrightarrow> length (filter P xs) \<le> length (filter Q xs)"
proof (induction xs)
  case Nil
  then show ?case by simp
next
  case (Cons x xs)
  then have "length (filter P xs) \<le> length (filter Q xs)" by simp
  moreover have "P x \<Longrightarrow> Q x" using Cons.prems by simp
  ultimately show ?case by auto
qed

lemma records_invariant_insert:
  assumes "records_invariant st"
  shows "records_invariant (snd (insert_attendance_record v st))"
proof (cases "fst (insert_attendance_record v st)")
  case (Some e)
  then have "attendance_records (snd (insert_attendance_record v st)) = attendance_records st"
    and "attendance_records_id_seq (snd (insert_attendance_record v st))
           = attendance_records_id_seq st + 1"
    by (auto simp: insert_attendance_record_def Let_def split: option.splits if_splits)
  with assms show ?thesis
    by (fastforce simp: records_invariant_def records_of_def)
next
  case None
  then obtain ts where ts: "v_timestamp v = Some ts"
    and nocol: "\<not> list_ex (\<lambda>r. collide (ar_session_id r) (ar_student_id r)
                   (v_session_id v) (v_student_id v)) (attendance_records st)"
    by (auto simp: insert_attendance_record_def Let_def split: option.splits if_splits)
  define row where "row = \<lparr>ar_id = attendance_records_id_seq st,
       ar_session_id = v_session_id v, ar_student_id = v_student_id v,
       ar_timestamp = ts, ar_latitude = v_latitude v,
       ar_longitude = v_longitude v, ar_ip_address = v_ip_address v\<rparr>"
  from None ts nocol have recs:
    "attendance_records (snd (insert_attendance_record v st)) = attendance_records st @ [row]"
    and seq: "attendance_records_id_seq (snd (insert_attendance_record v st))
           = attendance_records_id_seq st + 1"
    by (auto simp: insert_attendance_record_def Let_def row_def split: option.splits if_splits)
  from assms have d: "distinct (map ar_id (attendance_records st))"
    and b: "\<forall>r \<in> set (attendance_records st). ar_id r < attendance_records_id_seq st"
    and u: "\<forall>s t. length (records_of s t st) \<le> 1"
    by (simp_all add: records_invariant_def)
  have d': "distinct (map ar_id (attendance_records st @ [row]))"
    using d b by (auto simp: row_def)
  have b': "\<forall>r \<in> set (attendance_records st @ [row]).
              ar_id r < attendance_records_id_seq st + 1"
    using b by (auto simp: row_def)
  have u': "length (filter (\<lambda>r. ar_session_id r = Some s \<and> ar_student_id r = Some t)
                (attendance_records st @ [row])) \<le> 1" for s t
  proof (cases "ar_session_id row = Some s \<and> ar_student_id row = Some t")
    case True
    with nocol have "\<forall>r \<in> set (attendance_records st).
        \<not> (ar_session_id r = Some s \<and> ar_student_id r = Some t)"
      by (auto simp: list_ex_iff collide_def row_def)
    then have "filter (\<lambda>r. ar_session_id r = Some s \<and> ar_student_id r = Some t)
                 (attendance_records st) = []"
      by (simp add: filter_empty_conv)
    then show ?thesis by simp
  next
    case False
    with u [rule_format, of s t] show ?thesis by (auto simp: records_of_def)
  qed
  show ?thesis
    unfolding records_invariant_def records_of_def recs seq
    using d' b' u' by blast
qed

lemma records_invariant_update:
  assumes "records_invariant st"
  shows "records_invariant (snd (update_attendance_record i s t st))"
proof (cases "snd (update_attendance_record i s t st) = st")
  case True
  with assms show ?thesis by simp
next
  case False
  define f :: "attendance_record \<Rightarrow> attendance_record"
    where "f = (\<lambda>r. if ar_id r = i then r\<lparr>ar_session_id := s, ar_student_id := t\<rparr> else r)"
  from False have nocol: "\<not> list_ex (\<lambda>r. ar_id r \<noteq> i
        \<and> collide (ar_session_id r) (ar_student_id r) s t) (attendance_records st)"
    and st': "snd (update_attendance_record i s t st)
        = st\<lparr>attendance_records := map f (attendance_records st)\<rparr>"
    by (auto simp: update_attendance_record_def f_def split: if_splits)
  from assms have d: "distinct (map ar_id (attendance_records st))"
    and b: "\<forall>r \<in> set (attendance_records st). ar_id r < attendance_records_id_seq st"
    and u: "\<forall>s t. length (records_of s t st) \<le> 1"
    by (simp_all add: records_invariant_def)
  have ids: "map ar_id (map f (attendance_records st)) = map ar_id (attendance_records st)"
    by (simp add: f_def)
  have d': "distinct (map ar_id (map f (attendance_records st)))"
    unfolding ids by (rule d)
  have b': "\<forall>r \<in> set (map f (attendance_records st)). ar_id r < attendance_records_id_seq st"
    using b by (auto simp: f_def)
  have u': "length (filter (\<lambda>r. ar_session_id r = Some s' \<and> ar_student_id r = Some t')
                (map f (attendance_records st))) \<le> 1" for s' t'
  proof -
    let ?P = "\<lambda>r. ar_session_id r = Some s' \<and> ar_student_id r = Some t'"
    have eq: "length (filter ?P (map f (attendance_records st)))
               = length (filter (?P \<circ> f) (attendance_records st))"
      by (simp add: filter_map)
    show ?thesis
    proof (cases "s = Some s' \<and> t = Some t'")
      case True
      have "length (filter (?P \<circ> f) (attendance_records st))
              \<le> length (filter (\<lambda>r. ar_id r = i) (attendance_records st))"
      proof (rule length_filter_mono)
        fix x assume x: "x \<in> set (attendance_records st)" and p: "(?P \<circ> f) x"
        show "ar_id x = i"
        proof (rule ccontr)
          assume ne: "ar_id x \<noteq> i"
          with p have "?P x" by (simp add: f_def)
          with True have "collide (ar_session_id x) (ar_student_id x) s t"
            by (simp add: collide_def)
          with nocol x ne show False by (auto simp: list_ex_iff)
        qed
      qed
      also have "\<dots> \<le> 1" using d by (rule distinct_key_filter_le_1)
      finally show ?thesis using eq by simp
    next
      case False
      have "length (filter (?P \<circ> f) (attendance_records st))
              \<le> length (filter ?P (attendance_records st))"
      proof (rule length_filter_mono)
        fix x assume "x \<in> set (attendance_records st)" and p: "(?P \<circ> f) x"
        with False show "?P x" by (auto simp: f_def split: if_splits)
      qed
      also have "\<dots> \<le> 1" using u [rule_format, of s' t'] by (simp add: records_of_def)
      finally show ?thesis using eq by simp
    qed
  qed
  show ?thesis
    unfolding st' records_invariant_def records_of_def
    using d' b' u' by simp
qed

lemma records_invariant_filter:
  assumes "records_invariant st"
  shows "records_invariant (st\<lparr>attendance_records := filter Q (attendance_records st)\<rparr>)"
proof -
  from assms have d: "distinct (map ar_id (attendance_records st))"
    and b: "\<forall>r \<in> set (attendance_records st). ar_id r < attendance_records_id_seq st"
    and u: "\<forall>s t. length (records_of s t st) \<le> 1"
    by (simp_all add: records_invariant_def)
  have "distinct (map ar_id (filter Q (attendance_records st)))"
    using d by (rule distinct_map_filter)
  moreover have "\<forall>r \<in> set (filter Q (attendance_records st)).
       ar_id r < attendance_records_id_seq st"
    using b by simp
  moreover have "length (filter (\<lambda>r. ar_session_id r = Some s \<and> ar_student_id r = Some t)
       (filter Q (attendance_records st))) \<le> 1" for s t
    using u [rule_format, of s t] unfolding records_of_def
    by (rule length_filter_le_1_filter)
  ultimately show ?thesis
    by (simp add: records_invariant_def records_of_def)
qed

lemma records_invariant_other:
  assumes "records_invariant st"
    and "attendance_records st' = attendance_records st"
    and "attendance_records_id_seq st' = attendance_records_id_seq st"
  shows "records_invariant st'"
  using assms by (simp add: records_invariant_def records_of_def)

lemma records_invariant_execute:
  assumes "records_invariant st"
  shows "records_invariant (snd (execute q st))"
proof (cases q)
  case (InsertRecord v)
  with assms show ?thesis by (simp add: records_invariant_insert)
next
  case (UpdateRecord i s t)
  with assms show ?thesis by (simp add: records_invariant_update)
next
  case (DeleteRecord i)
  with records_invariant_filter [OF assms] show ?thesis
    by (simp add: delete_attendance_record_def)
next
  case (InsertFingerprint v)
  show ?thesis
    by (rule records_invariant_other [OF assms])
       (auto simp: InsertFingerprint insert_device_fingerprint_def Let_def
             split: option.splits)
next
  case (DeleteFingerprint i)
  show ?thesis
    by (rule records_invariant_other [OF assms])
       (simp_all add: DeleteFingerprint delete_device_fingerprint_def)
next
  case (InsertSession i)
  show ?thesis
    by (rule records_invariant_other [OF assms])
       (simp_all add: InsertSession insert_session_def)
next
  case (InsertStudent i)
  show ?thesis
    by (rule records_invariant_other [OF assms])
       (simp_all add: InsertStudent insert_student_def)
next
  case (DeleteSession i)
  have "records_invariant
          (st\<lparr>attendance_records :=
                filter (\<lambda>r. ar_session_id r \<noteq> Some i) (attendance_records st)\<rparr>)"
    using assms by (rule records_invariant_filter)
  then show ?thesis
    by (rule records_invariant_other) (simp_all add: DeleteSession delete_session_def)
next
  case (DeleteStudent i)
  show ?thesis
    by (rule records_invariant_other [OF assms])
       (simp_all add: DeleteStudent delete_student_def)
qed

lemma records_invariant_execute_all:
  "records_invariant st \<Longrightarrow> records_invariant (execute_all qs st)"
  by (induction qs arbitrary: st) (simp_all add: records_invariant_execute)

lemma records_invariant_empty: "records_invariant empty_store"
  by (simp add: records_invariant_def records_of_def empty_store_def)

text \<open>
  Claim C3. After any sequence of statements on the empty store, every session and
  student have at most one row in \<open>attendance_records\<close>; and in any store that already
  holds a row for a session and student, inserting another row for that pair fails and
  leaves the table as it was.
\<close>

theorem one_record_per_session_and_student:
  "length (records_of s t (execute_all qs empty_store)) \<le> 1
   \<and> (records_of s t st \<noteq> [] \<and> v_session_id v = Some s \<and> v_student_id v = Some t
        \<longrightarrow> fst (insert_attendance_record v st) \<noteq> None
            \<and> attendance_records (snd (insert_attendance_record v st)) = attendance_records st)"
proof (intro conjI impI)
  have "records_invariant (execute_all qs empty_store)"
    using records_invariant_empty by (rule records_invariant_execute_all)
  then show "length (records_of s t (execute_all qs empty_store)) \<le> 1"
    by (simp add: records_invariant_def)
next
  assume a: "records_of s t st \<noteq> [] \<and> v_session_id v = Some s \<and> v_student_id v = Some t"
  then obtain r where "r \<in> set (attendance_records st)"
    and "ar_session_id r = Some s" and "ar_student_id r = Some t"
    by (auto simp: records_of_def filter_empty_conv)
  with a have c: "list_ex (\<lambda>r. collide (ar_session_id r) (ar_student_id r)
        (v_session_id v) (v_student_id v)) (attendance_records st)"
    by (auto simp: list_ex_iff collide_def)
  then show "fst (insert_attendance_record v st) \<noteq> None"
    by (simp add: insert_attendance_record_def Let_def split: option.splits)
  from c show "attendance_records (snd (insert_attendance_record v st)) = attendance_records st"
    by (simp add: insert_attendance_record_def Let_def split: option.splits)
qed

theorem one_record_per_session_and_student_witness:
  "records_of 1 2 (execute_all [InsertSession 1, InsertStudent 2, InsertRecord example_values]
       empty_store) \<noteq> []
   \<and> fst (insert_attendance_record example_values
        (execute_all [InsertSession 1, InsertStudent 2, InsertRecord example_values]
           empty_store)) \<noteq> None
   \<and> length (records_of 1 2
        (execute_all [InsertSession 1, InsertStudent 2, InsertRecord example_values,
           InsertRecord example_values] empty_store)) \<le> 1"
proof -
  have ne: "records_of 1 2 (execute_all [InsertSession 1, InsertStudent 2,
       InsertRecord example_values] empty_store) \<noteq> []"
    by (simp add: records_of_def empty_store_def example_values_def insert_session_def
          insert_student_def insert_attendance_record_def references_def collide_def Let_def)
  have v: "v_session_id example_values = Some 1 \<and> v_student_id example_values = Some 2"
    by (simp add: example_values_def)
  show ?thesis
    using ne v
      one_record_per_session_and_student [of 1 2
        "[InsertSession 1, InsertStudent 2, InsertRecord example_values,
          InsertRecord example_values]"
        "execute_all [InsertSession 1, InsertStudent 2, InsertRecord example_values]
           empty_store" example_values]
    by blast
qed

lemma fingerprints_invariant_filter:
  assumes "fingerprints_invariant st"
  shows "fingerprints_invariant
           (st\<lparr>session_device_fingerprints := filter Q (session_device_fingerprints st)\<rparr>)"
proof -
  have "length (filter (\<lambda>r. df_session_id r = Some s \<and> df_student_id r = Some t)
       (filter Q (session_device_fingerprints st))) \<le> 1" for s t
    using assms unfolding fingerprints_invariant_def fingerprints_of_student_def
    by (intro length_filter_le_1_filter) blast
  moreover have "length (filter (\<lambda>r. df_session_id r = Some s \<and> df_fingerprint r = fp)
       (filter Q (session_device_fingerprints st))) \<le> 1" for s fp
    using assms unfolding fingerprints_invariant_def fingerprints_of_device_def
    by (intro length_filter_le_1_filter) blast
  ultimately show ?thesis
    by (simp add: fingerprints_invariant_def fingerprints_of_student_def
          fingerprints_of_device_def)
qed

lemma fingerprints_invariant_other:
  assumes "fingerprints_invariant st"
    and "session_device_fingerprints st' = session_device_fingerprints st"
  shows "fingerprints_invariant st'"
  using assms
  by (simp add: fingerprints_invariant_def fingerprints_of_student_def
        fingerprints_of_device_def)

lemma fingerprints_invariant_insert:
  assumes "fingerprints_invariant st"
  shows "fingerprints_invariant (snd (insert_device_fingerprint v st))"
proof (cases "fst (insert_device_fingerprint v st)")
  case (Some e)
  then have "session_device_fingerprints (snd (insert_device_fingerprint v st))
      = session_device_fingerprints st"
    by (auto simp: insert_device_fingerprint_def Let_def split: option.splits if_splits)
  with assms show ?thesis by (rule fingerprints_invariant_other)
next
  case None
  then obtain fp where fp: "fv_fingerprint v = Some fp"
    and nocol: "\<not> list_ex (\<lambda>r. collide (df_session_id r) (df_student_id r)
                                (fv_session_id v) (fv_student_id v)
                              \<or> collide (df_session_id r) (Some (df_fingerprint r))
                                   (fv_session_id v) (Some fp))
                  (session_device_fingerprints st)"
    by (auto simp: insert_device_fingerprint_def Let_def split: option.splits if_splits)
  define row where "row = \<lparr>df_id = session_device_fingerprints_id_seq st,
      df_session_id = fv_session_id v, df_student_id = fv_student_id v, df_fingerprint = fp\<rparr>"
  from None fp nocol have rows:
    "session_device_fingerprints (snd (insert_device_fingerprint v st))
       = session_device_fingerprints st @ [row]"
    by (auto simp: insert_device_fingerprint_def Let_def row_def split: option.splits if_splits)
  from assms have u1: "\<forall>s t. length (fingerprints_of_student s t st) \<le> 1"
    and u2: "\<forall>s fp. length (fingerprints_of_device s fp st) \<le> 1"
    by (simp_all add: fingerprints_invariant_def)
  have a: "length (filter (\<lambda>r. df_session_id r = Some s \<and> df_student_id r = Some t)
       (session_device_fingerprints st @ [row])) \<le> 1" for s t
  proof (cases "df_session_id row = Some s \<and> df_student_id row = Some t")
    case True
    with nocol have "\<forall>r \<in> set (session_device_fingerprints st).
        \<not> (df_session_id r = Some s \<and> df_student_id r = Some t)"
      by (auto simp: list_ex_iff collide_def row_def)
    then have "filter (\<lambda>r. df_session_id r = Some s \<and> df_student_id r = Some t)
        (session_device_fingerprints st) = []"
      by (simp add: filter_empty_conv)
    then show ?thesis by simp
  next
    case False
    with u1 [rule_format, of s t] show ?thesis by (auto simp: fingerprints_of_student_def)
  qed
  have b: "length (filter (\<lambda>r. df_session_id r = Some s \<and> df_fingerprint r = x)
       (session_device_fingerprints st @ [row])) \<le> 1" for s x
  proof (cases "df_session_id row = Some s \<and> df_fingerprint row = x")
    case True
    with nocol have "\<forall>r \<in> set (session_device_fingerprints st).
        \<not> (df_session_id r = Some s \<and> df_fingerprint r = x)"
      by (auto simp: list_ex_iff collide_def row_def)
    then have "filter (\<lambda>r. df_session_id r = Some s \<and> df_fingerprint r = x)
        (session_device_fingerprints st) = []"
      by (simp add: filter_empty_conv)
    then show ?thesis by simp
  next
    case False
    with u2 [rule_format, of s x] show ?thesis by (auto simp: fingerprints_of_device_def)
  qed
  show ?thesis
    unfolding fingerprints_invariant_def fingerprints_of_student_def
      fingerprints_of_device_def rows
    using a b by blast
qed

lemma fingerprints_invariant_execute:
  assumes "fingerprints_invariant st"
  shows "fingerprints_invariant (snd (execute q st))"
proof (cases q)
  case (InsertRecord v)
  show ?thesis
    by (rule fingerprints_invariant_other [OF assms])
       (auto simp: InsertRecord insert_attendance_record_def Let_def split: option.splits)
next
  case (UpdateRecord i s t)
  show ?thesis
    by (rule fingerprints_invariant_other [OF assms])
       (simp add: UpdateRecord update_attendance_record_def)
next
  case (DeleteRecord i)
  show ?thesis
    by (rule fingerprints_invariant_other [OF assms])
       (simp add: DeleteRecord delete_attendance_record_def)
next
  case (InsertFingerprint v)
  with assms show ?thesis by (simp add: fingerprints_invariant_insert)
next
  case (DeleteFingerprint i)
  with fingerprints_invariant_filter [OF assms] show ?thesis
    by (simp add: delete_device_fingerprint_def)
next
  case (InsertSession i)
  show ?thesis
    by (rule fingerprints_invariant_other [OF assms])
       (simp add: InsertSession insert_session_def)
next
  case (InsertStudent i)
  show ?thesis
    by (rule fingerprints_invariant_other [OF assms])
       (simp add: InsertStudent insert_student_def)
next
  case (DeleteSession i)
  have "fingerprints_invariant
          (st\<lparr>session_device_fingerprints :=
                filter (\<lambda>r. df_session_id r \<noteq> Some i) (session_device_fingerprints st)\<rparr>)"
    using assms by (rule fingerprints_invariant_filter)
  then show ?thesis
    by (rule fingerprints_invariant_other) (simp add: DeleteSession delete_session_def)
next
  case (DeleteStudent i)
  have h: "fingerprints_invariant
          (st\<lparr>session_device_fingerprints :=
                filter (\<lambda>r. df_student_id r \<noteq> Some i) (session_device_fingerprints st)\<rparr>)"
    using assms by (rule fingerprints_invariant_filter)
  show ?thesis
  proof (cases "list_ex (\<lambda>r. ar_student_id r = Some i) (attendance_records st)")
    case True
    with assms show ?thesis by (simp add: DeleteStudent delete_student_def)
  next
    case False
    show ?thesis
      by (rule fingerprints_invariant_other [OF h])
         (simp add: DeleteStudent delete_student_def False)
  qed
qed

lemma fingerprints_invariant_execute_all:
  "fingerprints_invariant st \<Longrightarrow> fingerprints_invariant (execute_all qs st)"
  by (induction qs arbitrary: st) (simp_all add: fingerprints_invariant_execute)

lemma fingerprints_invariant_empty: "fingerprints_invariant empty_store"
  by (simp add: fingerprints_invariant_def fingerprints_of_student_def
        fingerprints_of_device_def empty_store_def)

text \<open>
  Claim C4. After any sequence of statements on the empty store, every session has at
  most one row of \<open>session_device_fingerprints\<close> per student and at most one per
  fingerprint; and once a fingerprint is recorded in a session, inserting it again in
  that session, for whichever student, is a unique violation that leaves the table as
  it was.
\<close>

theorem one_fingerprint_row_per_student_and_per_device:
  "length (fingerprints_of_student s t (execute_all qs empty_store)) \<le> 1
   \<and> length (fingerprints_of_device s fp (execute_all qs empty_store)) \<le> 1
   \<and> (fingerprints_of_device s fp st \<noteq> [] \<and> fv_session_id v = Some s
          \<and> fv_fingerprint v = Some fp
        \<longrightarrow> fst (insert_device_fingerprint v st) = Some UniqueViolation
            \<and> session_device_fingerprints (snd (insert_device_fingerprint v st))
                = session_device_fingerprints st)"
proof (intro conjI impI)
  have inv: "fingerprints_invariant (execute_all qs empty_store)"
    using fingerprints_invariant_empty by (rule fingerprints_invariant_execute_all)
  from inv show "length (fingerprints_of_student s t (execute_all qs empty_store)) \<le> 1"
    by (simp add: fingerprints_invariant_def)
  from inv show "length (fingerprints_of_device s fp (execute_all qs empty_store)) \<le> 1"
    by (simp add: fingerprints_invariant_def)
next
  assume a: "fingerprints_of_device s fp st \<noteq> [] \<and> fv_session_id v = Some s
          \<and> fv_fingerprint v = Some fp"
  then obtain r where "r \<in> set (session_device_fingerprints st)"
    and "df_session_id r = Some s" and "df_fingerprint r = fp"
    by (auto simp: fingerprints_of_device_def filter_empty_conv)
  with a have c: "list_ex (\<lambda>r. collide (df_session_id r) (df_student_id r)
                                (fv_session_id v) (fv_student_id v)
                              \<or> collide (df_session_id r) (Some (df_fingerprint r))
                                   (fv_session_id v) (Some fp))
                  (session_device_fingerprints st)"
    by (auto simp: list_ex_iff collide_def)
  with a show "fst (insert_device_fingerprint v st) = Some UniqueViolation"
    by (simp add: insert_device_fingerprint_def Let_def)
  from a c show "session_device_fingerprints (snd (insert_device_fingerprint v st))
                = session_device_fingerprints st"
    by (simp add: insert_device_fingerprint_def Let_def)
qed

theorem one_fingerprint_row_per_student_and_per_device_witness:
  "fingerprints_of_device 1 ''ab12''
       (execute_all [InsertSession 1, InsertStudent 2, InsertStudent 3,
          InsertFingerprint example_fingerprint] empty_store) \<noteq> []
   \<and> fst (insert_device_fingerprint (example_fingerprint\<lparr>fv_student_id := Some 3\<rparr>)
        (execute_all [InsertSession 1, InsertStudent 2, InsertStudent 3,
           InsertFingerprint example_fingerprint] empty_store)) = Some UniqueViolation"
proof -
  have ne: "fingerprints_of_device 1 ''ab12''
       (execute_all [InsertSession 1, InsertStudent 2, InsertStudent 3,
          InsertFingerprint example_fingerprint] empty_store) \<noteq> []"
    by (simp add: fingerprints_of_device_def empty_store_def example_fingerprint_def
          insert_session_def insert_student_def insert_device_fingerprint_def
          references_def collide_def Let_def)
  have v: "fv_session_id (example_fingerprint\<lparr>fv_student_id := Some 3\<rparr>) = Some 1
      \<and> fv_fingerprint (example_fingerprint\<lparr>fv_student_id := Some 3\<rparr>) = Some ''ab12''"
    by (simp add: example_fingerprint_def)
  show ?thesis
    using ne v
      one_fingerprint_row_per_student_and_per_device [of 1 2 "[]" "''ab12''"
        "execute_all [InsertSession 1, InsertStudent 2, InsertStudent 3,
           InsertFingerprint example_fingerprint] empty_store"
        "example_fingerprint\<lparr>fv_student_id := Some 3\<rparr>"]
    by blast
qed

section \<open>The fingerprint and the attendance post\<close>

lemma js_append: "js (a @ b) = js a @ js b"
  by (simp add: js_def)












section \<open>The name lookup\<close>

text \<open>
  Claim C9. The handler behind the enrollment input asks the server for a name exactly
  when the trimmed value has at least 5 code units, with one request for the trimmed
  value; on a shorter value it makes no request and empties the name display. This
  holds for the student page script and for the earlier revisions.
\<close>

theorem name_lookup_needs_five_units:
  "(5 \<le> length (trim (enrollment_value p))
      \<longrightarrow> fetches (enrollmentInput_handler wd p)
            = fetches p @ [name_request (trim (enrollment_value p))]
          \<and> fetches (enrollmentInput_handler_r1 wd p)
            = fetches p @ [name_request (trim (enrollment_value p))])
   \<and> (length (trim (enrollment_value p)) < 5
      \<longrightarrow> fetches (enrollmentInput_handler wd p) = fetches p
          \<and> nameDisplay_textContent (enrollmentInput_handler wd p) = []
          \<and> fetches (enrollmentInput_handler_r1 wd p) = fetches p
          \<and> nameDisplay_textContent (enrollmentInput_handler_r1 wd p) = [])"
  by (simp add: enrollmentInput_handler_def enrollmentInput_handler_r1_def Let_def do_fetch_def
        split: fetched.splits option.splits)

lemma trim_padded: "trim (js ''  Y2412 '') = js ''Y2412''"
  by (simp add: trim_def js_def isWhiteSpace_def)

lemma trim_short: "trim (js ''Y241'') = js ''Y241''"
  by (simp add: trim_def js_def isWhiteSpace_def)

theorem name_lookup_needs_five_units_witness:
  "fetches (enrollmentInput_handler example_world (example_page\<lparr>enrollment_value := js ''  Y2412 ''\<rparr>))
     = [name_request (js ''Y2412'')]
   \<and> fetches (enrollmentInput_handler example_world (example_page\<lparr>enrollment_value := js ''Y241''\<rparr>))
     = []
   \<and> nameDisplay_textContent
       (enrollmentInput_handler example_world (example_page\<lparr>enrollment_value := js ''Y241''\<rparr>))
     = []"
proof -
  have a: "5 \<le> length (trim (enrollment_value (example_page\<lparr>enrollment_value := js ''  Y2412 ''\<rparr>)))"
    by (simp add: trim_padded) (simp add: js_def)
  have b: "length (trim (enrollment_value (example_page\<lparr>enrollment_value := js ''Y241''\<rparr>))) < 5"
    by (simp add: trim_short) (simp add: js_def)
  have f: "fetches example_page = []" by (simp add: example_page_def)
  show ?thesis
    using a b f
      name_lookup_needs_five_units
        [of "example_page\<lparr>enrollment_value := js ''  Y2412 ''\<rparr>" example_world]
      name_lookup_needs_five_units
        [of "example_page\<lparr>enrollment_value := js ''Y241''\<rparr>" example_world]
    by (simp add: trim_padded trim_short)
qed

section \<open>Submitting attendance\<close>

lemma fetches_showStatusMessage [simp]: "fetches (showStatusMessage msg ty p) = fetches p"
  by (simp add: showStatusMessage_def setTimeout_def setTimer_def)

lemma presentList_showStatusMessage [simp]:
  "presentList_exists (showStatusMessage msg ty p) = presentList_exists p"
  by (simp add: showStatusMessage_def setTimeout_def setTimer_def)

lemma button_showStatusMessage [simp]:
  "markButton_disabled (showStatusMessage msg ty p) = markButton_disabled p"
  "markButton_text (showStatusMessage msg ty p) = markButton_text p"
  "spinner_display (showStatusMessage msg ty p) = spinner_display p"
  by (simp_all add: showStatusMessage_def setTimeout_def setTimer_def)

lemma form_display_fetchPresentStudents [simp]:
  "form_display (fetchPresentStudents i wd p) = form_display p"
  by (simp add: fetchPresentStudents_def Let_def do_fetch_def
        split: fetched.splits option.splits)

lemma fetches_fetchPresentStudents:
  "fetches (fetchPresentStudents i wd p)
     = fetches p @ (if presentList_exists p then [present_request i] else [])"
  by (simp add: fetchPresentStudents_def Let_def do_fetch_def
        split: fetched.splits option.splits)

lemma handleAttendanceSubmission_effects:
  "activeSessionDataStudent w = Some sd \<longrightarrow>
     fetches (snd (handleAttendanceSubmission w wd position m p))
       = fetches p
         @ [\<lparr>http_method = js ''POST'', url = js ''/api/mark_attendance'', headers = [],
             body = FormBody
               [(js ''enrollment_no'', FStr (enrollment_value p)),
                (js ''session_id'', FNum (of_int (session_id sd))),
                (js ''latitude'', FNum (latitude position)),
                (js ''longitude'', FNum (longitude position)),
                (js ''location_method'', FStr m),
                (js ''fingerprint'', FStr (getDeviceFingerprint w))]\<rparr>]
         @ (if (\<exists>ok status r. mark wd = Responded ok status (Some r) \<and> success r)
                \<and> presentList_exists p
            then [present_request (session_id sd)] else [])
     \<and> (\<forall>ok status r. mark wd = Responded ok status (Some r) \<and> success r \<longrightarrow>
           fst (handleAttendanceSubmission w wd position m p) = None
           \<and> form_display (snd (handleAttendanceSubmission w wd position m p)) = js ''none'')
     \<and> (\<forall>ok status r. mark wd = Responded ok status (Some r) \<and> \<not> success r
             \<and> category r \<noteq> js ''retry_high_accuracy'' \<longrightarrow>
           fst (handleAttendanceSubmission w wd position m p) = None
           \<and> \<not> markButton_disabled (snd (handleAttendanceSubmission w wd position m p))
           \<and> markButton_text (snd (handleAttendanceSubmission w wd position m p))
               = js ''Mark My Attendance''
           \<and> spinner_display (snd (handleAttendanceSubmission w wd position m p)) = js ''none'')"
proof (intro impI conjI allI)
  assume sd: "activeSessionDataStudent w = Some sd"
  show "fetches (snd (handleAttendanceSubmission w wd position m p))
       = fetches p
         @ [\<lparr>http_method = js ''POST'', url = js ''/api/mark_attendance'', headers = [],
             body = FormBody
               [(js ''enrollment_no'', FStr (enrollment_value p)),
                (js ''session_id'', FNum (of_int (session_id sd))),
                (js ''latitude'', FNum (latitude position)),
                (js ''longitude'', FNum (longitude position)),
                (js ''location_method'', FStr m),
                (js ''fingerprint'', FStr (getDeviceFingerprint w))]\<rparr>]
         @ (if (\<exists>ok status r. mark wd = Responded ok status (Some r) \<and> success r)
                \<and> presentList_exists p
            then [present_request (session_id sd)] else [])"
    using sd
    by (auto simp: handleAttendanceSubmission_def Let_def do_fetch_def
          fetches_fetchPresentStudents openModal_def resetSubmitButton_def
          mark_request_def formData_def
          split: fetched.splits option.splits)
next
  fix ok status r
  assume sd: "activeSessionDataStudent w = Some sd"
    and r: "mark wd = Responded ok status (Some r) \<and> success r"
  then show "fst (handleAttendanceSubmission w wd position m p) = None"
    by (simp add: handleAttendanceSubmission_def Let_def)
  from sd r show "form_display (snd (handleAttendanceSubmission w wd position m p)) = js ''none''"
    by (simp add: handleAttendanceSubmission_def Let_def)
next
  fix ok status r
  assume sd: "activeSessionDataStudent w = Some sd"
    and r: "mark wd = Responded ok status (Some r) \<and> \<not> success r
             \<and> category r \<noteq> js ''retry_high_accuracy''"
  then show "fst (handleAttendanceSubmission w wd position m p) = None"
    by (simp add: handleAttendanceSubmission_def Let_def)
  from sd r show "\<not> markButton_disabled (snd (handleAttendanceSubmission w wd position m p))"
    by (simp add: handleAttendanceSubmission_def Let_def resetSubmitButton_def)
  from sd r show "markButton_text (snd (handleAttendanceSubmission w wd position m p))
               = js ''Mark My Attendance''"
    by (simp add: handleAttendanceSubmission_def Let_def resetSubmitButton_def)
  from sd r show "spinner_display (snd (handleAttendanceSubmission w wd position m p)) = js ''none''"
    by (simp add: handleAttendanceSubmission_def Let_def resetSubmitButton_def)
qed

lemma fetches_gps_failed [simp]: "fetches (gps_failed p) = fetches p"
  by (simp add: gps_failed_def openModal_def)

lemma fetches_google_failed [simp]: "fetches (google_failed p) = fetches p"
  by (simp add: google_failed_def resetSubmitButton_def)





section \<open>Location acquisition\<close>

lemma geo_calls_showStatusMessage_r2 [simp]:
  "geo_calls (showStatusMessage_r2 msg ty p) = geo_calls p"
  "next_watch_id (showStatusMessage_r2 msg ty p) = next_watch_id p"
  by (simp_all add: showStatusMessage_r2_def setTimeout_def setTimer_def)

lemma geo_calls_showStatusMessage [simp]:
  "geo_calls (showStatusMessage msg ty p) = geo_calls p"
  by (simp add: showStatusMessage_def setTimeout_def setTimer_def)

lemma geo_calls_submit_success_r2 [simp]:
  "geo_calls (submit_success_r2 w wd pos p) = geo_calls p"
  by (simp add: submit_success_r2_def Let_def do_fetch_def
        split: option.splits fetched.splits)

lemma geo_calls_submit_error_r2 [simp]:
  "geo_calls (submit_error_r2 e p) = geo_calls p"
  by (simp add: submit_error_r2_def)

lemma geo_calls_fetchPresentStudents [simp]:
  "geo_calls (fetchPresentStudents i wd p) = geo_calls p"
  by (simp add: fetchPresentStudents_def Let_def do_fetch_def
        split: fetched.splits option.splits)

lemma geo_calls_handleAttendanceSubmission [simp]:
  "geo_calls (snd (handleAttendanceSubmission w wd pos m p)) = geo_calls p"
  by (simp add: handleAttendanceSubmission_def Let_def do_fetch_def openModal_def
        resetSubmitButton_def split: option.splits fetched.splits)

lemma geo_calls_gps_failed [simp]: "geo_calls (gps_failed p) = geo_calls p"
  by (simp add: gps_failed_def openModal_def)

lemma geo_calls_attendanceForm_submit:
  assumes "has_geolocation w"
  shows "geo_calls (attendanceForm_submit w wd p)
           = geo_calls p @ [GetCurrentPosition gps_options]"
proof (cases "gps wd")
  case (Inl err)
  with assms show ?thesis
    by (simp add: attendanceForm_submit_def getBrowserGpsLocation_def Let_def)
next
  case (Inr pos)
  let ?p2 = "p\<lparr>markButton_disabled := True, spinner_display := js ''inline-block'',
                 markButton_text := js ''Getting GPS Location...'',
                 tips_display := js ''none'',
                 geo_calls := geo_calls p @ [GetCurrentPosition gps_options]\<rparr>"
  obtain e q where h: "handleAttendanceSubmission w wd pos (js ''gps'') ?p2 = (e, q)"
    by (cases "handleAttendanceSubmission w wd pos (js ''gps'') ?p2") blast
  have "geo_calls q = geo_calls ?p2"
    using geo_calls_handleAttendanceSubmission [of w wd pos "js ''gps''" ?p2] h by simp
  with assms Inr h show ?thesis
    by (cases e) (simp_all add: attendanceForm_submit_def getBrowserGpsLocation_def Let_def)
qed

lemma geo_calls_attendanceForm_submit_r2:
  "has_geolocation w \<Longrightarrow>
   geo_calls (attendanceForm_submit_r2 w wd p)
     = geo_calls p @ [GetCurrentPosition low_accuracy_options]
       @ (case gps wd of
            Inl err \<Rightarrow> []
          | Inr pos \<Rightarrow>
              if accuracy pos < 150 then []
              else [WatchPosition (next_watch_id p) high_accuracy_options,
                    ClearWatch (next_watch_id p)])"
  by (cases "gps wd"; cases "watch wd")
     (simp_all add: attendanceForm_submit_r2_def getAccurateLocation_r2_def Let_def
        watchPosition_def clearWatch_def)

lemma headers_of_attendance_fetches:
  "\<exists>rest. fetches (snd (handleAttendanceSubmission w wd pos m p)) = fetches p @ rest
          \<and> (\<forall>r \<in> set rest. headers r = [])"
proof (cases "activeSessionDataStudent w")
  case None
  then show ?thesis by (simp add: handleAttendanceSubmission_def)
next
  case (Some sd)
  from handleAttendanceSubmission_effects [rule_format, OF Some, of wd pos m p]
  show ?thesis
    by (auto simp: present_request_def)
qed

lemma submit_never_asks_google:
  "\<exists>rest. fetches (attendanceForm_submit w wd p) = fetches p @ rest
          \<and> (\<forall>key. google_request key \<notin> set rest)"
proof -
  let ?p1 = "p\<lparr>markButton_disabled := True, spinner_display := js ''inline-block'',
                 markButton_text := js ''Getting GPS Location...'',
                 tips_display := js ''none''\<rparr>"
  obtain r p2 where g: "getBrowserGpsLocation w wd ?p1 = (r, p2)"
    by (cases "getBrowserGpsLocation w wd ?p1") blast
  then have f2: "fetches p2 = fetches p"
    by (auto simp: getBrowserGpsLocation_def Let_def split: if_splits sum.splits)
  have "\<exists>rest. fetches (attendanceForm_submit w wd p) = fetches p @ rest
          \<and> (\<forall>r \<in> set rest. headers r = [])"
  proof (cases r)
    case (Inl e)
    with g f2 show ?thesis by (simp add: attendanceForm_submit_def Let_def)
  next
    case (Inr pos)
    obtain e q where h: "handleAttendanceSubmission w wd pos (js ''gps'') p2 = (e, q)"
      by (cases "handleAttendanceSubmission w wd pos (js ''gps'') p2") blast
    from headers_of_attendance_fetches [of w wd pos "js ''gps''" p2] h f2
    obtain rest where "fetches q = fetches p @ rest" and "\<forall>r \<in> set rest. headers r = []"
      by auto
    with g Inr h show ?thesis
      by (cases e) (simp_all add: attendanceForm_submit_def Let_def)
  qed
  then obtain rest where a: "fetches (attendanceForm_submit w wd p) = fetches p @ rest"
    and b: "\<forall>r \<in> set rest. headers r = []" by blast
  have "google_request key \<notin> set rest" for key
    using b by (auto simp: google_request_def)
  with a show ?thesis by blast
qed

text \<open>
  Claim C1, as stated, fails on the second revision of \<open>static/main.js\<close>: a reported
  accuracy of exactly 150 does not exceed the threshold, and the high-accuracy watch is
  started all the same.
\<close>

theorem escalation_at_exactly_150_metres:
  "gps example_world = Inr \<lparr>latitude = 23.8244, longitude = 78.7706, accuracy = 150\<rparr>
   \<and> \<not> (150 :: real) < 150
   \<and> geo_calls (attendanceForm_submit_r2 example_window example_world example_page)
       = [GetCurrentPosition low_accuracy_options,
          WatchPosition 1 high_accuracy_options, ClearWatch 1]"
  by (simp add: attendanceForm_submit_r2_def getAccurateLocation_r2_def Let_def
        watchPosition_def clearWatch_def example_world_def example_window_def example_page_def
        showStatusMessage_r2_def setTimeout_def setTimer_def submit_success_r2_def do_fetch_def)

text \<open>
  Claim C1, amended. In the second revision of \<open>static/main.js\<close> the submit handler
  first asks the browser for a low-accuracy position with a timeout of 5000 ms; it
  starts one high-accuracy watch with a timeout of 15000 ms, cleared after its first
  answer, exactly when the reported accuracy is not below 150, and makes no further
  geolocation call otherwise. In the student page script the submit handler makes one
  high-accuracy browser request with a timeout of 8000 ms whatever the accuracy, and
  never queries the external geolocation API itself: that is left to the retry button.
\<close>

theorem two_stage_location:
  "has_geolocation w \<longrightarrow>
     geo_calls (attendanceForm_submit_r2 w wd p)
       = geo_calls p
         @ [GetCurrentPosition
              \<lparr>enableHighAccuracy = False, timeout = Some 5000, maximumAge = None\<rparr>]
         @ (case gps wd of
              Inl err \<Rightarrow> []
            | Inr pos \<Rightarrow>
                if accuracy pos < 150 then []
                else [WatchPosition (next_watch_id p)
                        \<lparr>enableHighAccuracy = True, timeout = Some 15000,
                         maximumAge = Some 0\<rparr>,
                      ClearWatch (next_watch_id p)])
     \<and> geo_calls (attendanceForm_submit w wd p)
       = geo_calls p
         @ [GetCurrentPosition
              \<lparr>enableHighAccuracy = True, timeout = Some 8000, maximumAge = Some 0\<rparr>]
     \<and> (\<exists>rest. fetches (attendanceForm_submit w wd p) = fetches p @ rest
            \<and> (\<forall>key. google_request key \<notin> set rest))"
  using geo_calls_attendanceForm_submit_r2 [of w wd p] geo_calls_attendanceForm_submit [of w wd p]
    submit_never_asks_google [of w wd p]
  by (simp add: low_accuracy_options_def high_accuracy_options_def gps_options_def
        split: sum.splits)

theorem two_stage_location_witness:
  "geo_calls (attendanceForm_submit_r2 example_window
       (example_world\<lparr>gps := Inr \<lparr>latitude = 23.8244, longitude = 78.7706, accuracy = 20\<rparr>\<rparr>)
       example_page)
     = [GetCurrentPosition
          \<lparr>enableHighAccuracy = False, timeout = Some 5000, maximumAge = None\<rparr>]
   \<and> geo_calls (attendanceForm_submit example_window example_world example_page)
     = [GetCurrentPosition
          \<lparr>enableHighAccuracy = True, timeout = Some 8000, maximumAge = Some 0\<rparr>]"
proof -
  have g: "has_geolocation example_window" by (simp add: example_window_def)
  have e: "geo_calls example_page = []" by (simp add: example_page_def)
  show ?thesis
    using g e
      two_stage_location [of example_window
        "example_world\<lparr>gps := Inr \<lparr>latitude = 23.8244, longitude = 78.7706, accuracy = 20\<rparr>\<rparr>"
        example_page]
      two_stage_location [of example_window example_world example_page]
    by simp
qed

section \<open>Failures and the submit button\<close>

lemma status_class_error: "js ''status-message '' @ js ''error'' = js ''status-message error''"
  by (simp add: js_def)

lemma status_class_info: "js ''status-message '' @ js ''info'' = js ''status-message info''"
  by (simp add: js_def)

lemma showStatusMessage_shown:
  "status_exists p \<Longrightarrow>
     status_display (showStatusMessage msg ty p) = js ''block''
     \<and> status_textContent (showStatusMessage msg ty p) = msg
     \<and> status_className (showStatusMessage msg ty p) = js ''status-message '' @ ty"
  by (simp add: showStatusMessage_def setTimeout_def setTimer_def)

lemma showStatusMessage_r2_shown:
  "status_exists p \<Longrightarrow>
     status_display (showStatusMessage_r2 msg ty p) = js ''block''
     \<and> status_textContent (showStatusMessage_r2 msg ty p) = msg
     \<and> status_className (showStatusMessage_r2 msg ty p) = js ''status-message '' @ ty"
  by (simp add: showStatusMessage_r2_def setTimeout_def setTimer_def)

lemma status_exists_showStatusMessage_r2 [simp]:
  "status_exists (showStatusMessage_r2 msg ty p) = status_exists p"
  by (simp add: showStatusMessage_r2_def setTimeout_def setTimer_def)

lemma getGoogleApiLocation_result:
  "fst (getGoogleApiLocation w wd p) = fst (getGoogleApiLocation w wd q)"
  by (simp add: getGoogleApiLocation_def Let_def split: option.splits fetched.splits)

lemma status_exists_getGoogleApiLocation [simp]:
  "status_exists (snd (getGoogleApiLocation w wd p)) = status_exists p"
  by (simp add: getGoogleApiLocation_def Let_def do_fetch_def split: option.splits fetched.splits)

lemma submit_r2_on_error:
  assumes "has_geolocation w" and "gps wd = Inl err"
  shows "attendanceForm_submit_r2 w wd p
           = submit_error_r2 (js ''Could not get location: '' @ message err)
               ((showStatusMessage_r2 (js ''Getting location...'') (js ''info'')
                   (p\<lparr>markButton_disabled := True, markButton_text := js ''Verifying...''\<rparr>))
                  \<lparr>geo_calls := geo_calls p @ [GetCurrentPosition low_accuracy_options]\<rparr>)"
  using assms by (simp add: attendanceForm_submit_r2_def getAccurateLocation_r2_def Let_def)

lemma submit_on_gps_error:
  assumes "\<not> has_geolocation w \<or> (\<exists>err. gps wd = Inl err)"
  shows "\<exists>q. attendanceForm_submit w wd p = gps_failed q
            \<and> markButton_disabled q \<and> markButton_text q = js ''Getting GPS Location...''
            \<and> status_exists q = status_exists p"
  using assms
  by (auto simp: attendanceForm_submit_def getBrowserGpsLocation_def Let_def)

lemma retry_on_google_error:
  assumes "fst (getGoogleApiLocation w wd p) = Inl e"
  shows "\<exists>q. retryWithGoogleBtn_click w wd p = google_failed q
            \<and> status_exists q = status_exists p"
proof -
  let ?p1 = "(closeModal p)\<lparr>markButton_text := js ''Getting Wi-Fi Location...''\<rparr>"
  have "fst (getGoogleApiLocation w wd ?p1) = Inl e"
    using assms getGoogleApiLocation_result [of w wd ?p1 p] by simp
  then obtain q where g: "getGoogleApiLocation w wd ?p1 = (Inl e, q)"
    by (cases "getGoogleApiLocation w wd ?p1") simp
  then have "status_exists q = status_exists ?p1"
    using status_exists_getGoogleApiLocation [of w wd ?p1] by simp
  then have "status_exists q = status_exists p" by (simp add: closeModal_def)
  moreover have "retryWithGoogleBtn_click w wd p = google_failed q"
    by (simp add: retryWithGoogleBtn_click_def Let_def g)
  ultimately show ?thesis by blast
qed

lemma submit_r1_on_error:
  assumes "\<not> truthy (GOOGLE_MAPS_API_KEY w) \<or> google wd = Failed"
  shows "\<exists>msg q. attendanceForm_submit_r1 w wd p = submit_error_r1 msg q
            \<and> status_exists q = status_exists p"
proof (cases "truthy (GOOGLE_MAPS_API_KEY w)")
  case False
  let ?q = "p\<lparr>markButton_disabled := True, spinner_display := js ''inline-block'',
          markButton_text := js ''Getting Location...'', tips_display := js ''none''\<rparr>"
  have "attendanceForm_submit_r1 w wd p
          = submit_error_r1 (js ''Google Maps API key is missing.'') ?q"
    using False by (simp add: attendanceForm_submit_r1_def getAccurateLocation_r1_def)
  moreover have "status_exists ?q = status_exists p" by simp
  ultimately show ?thesis by blast
next
  case True
  with assms have f: "google wd = Failed" by simp
  let ?q = "do_fetch (google_request_r1 (the (GOOGLE_MAPS_API_KEY w)))
        (p\<lparr>markButton_disabled := True, spinner_display := js ''inline-block'',
          markButton_text := js ''Getting Location...'', tips_display := js ''none''\<rparr>)"
  have "attendanceForm_submit_r1 w wd p
          = submit_error_r1
              (js ''A network error occurred. Check your internet connection.'') ?q"
    using True f
    by (simp add: attendanceForm_submit_r1_def getAccurateLocation_r1_def Let_def)
  moreover have "status_exists ?q = status_exists p" by (simp add: do_fetch_def)
  ultimately show ?thesis by blast
qed

lemma submit_r2_on_watch_error:
  assumes "has_geolocation w" and "gps wd = Inr pos" and "\<not> accuracy pos < 150"
    and "watch wd = Inl err"
  shows "\<exists>q. attendanceForm_submit_r2 w wd p
               = submit_error_r2 (js ''Could not get an accurate location: '' @ message err) q
            \<and> status_exists q = status_exists p"
proof -
  let ?p4 = "clearWatch (next_watch_id p)
      (snd (watchPosition high_accuracy_options
         (showStatusMessage_r2 (js ''Improving location accuracy...'') (js ''info'')
            ((showStatusMessage_r2 (js ''Getting location...'') (js ''info'')
                (p\<lparr>markButton_disabled := True, markButton_text := js ''Verifying...''\<rparr>))
               \<lparr>geo_calls := geo_calls p @ [GetCurrentPosition low_accuracy_options]\<rparr>))))"
  have "attendanceForm_submit_r2 w wd p
          = submit_error_r2 (js ''Could not get an accurate location: '' @ message err) ?p4"
    using assms
    by (simp add: attendanceForm_submit_r2_def getAccurateLocation_r2_def Let_def
          watchPosition_def)
  moreover have "status_exists ?p4 = status_exists p"
    by (simp add: clearWatch_def watchPosition_def)
  ultimately show ?thesis by blast
qed

lemma submit_r1_on_any_error:
  assumes "\<not> truthy (GOOGLE_MAPS_API_KEY w) \<or> google wd = Failed
      \<or> google wd = Responded ok status None
      \<or> google wd = Responded False status' (Some d)
      \<or> (google wd = Responded True status'' (Some d') \<and> location d' = None)"
  shows "\<exists>msg q. attendanceForm_submit_r1 w wd p = submit_error_r1 msg q
            \<and> status_exists q = status_exists p"
proof (cases "truthy (GOOGLE_MAPS_API_KEY w)")
  case False
  then show ?thesis using submit_r1_on_error [of w wd p] by blast
next
  case True
  let ?q = "do_fetch (google_request_r1 (the (GOOGLE_MAPS_API_KEY w)))
        (p\<lparr>markButton_disabled := True, spinner_display := js ''inline-block'',
          markButton_text := js ''Getting Location...'', tips_display := js ''none''\<rparr>)"
  have s: "status_exists ?q = status_exists p" by (simp add: do_fetch_def)
  from True assms consider "google wd = Failed" | "google wd = Responded ok status None"
    | "google wd = Responded False status' (Some d)"
    | "google wd = Responded True status'' (Some d')" "location d' = None"
    by auto
  then have "\<exists>msg. attendanceForm_submit_r1 w wd p = submit_error_r1 msg ?q"
  proof cases
    case 1
    with True show ?thesis
      by (simp add: attendanceForm_submit_r1_def getAccurateLocation_r1_def Let_def) blast
  next
    case 2
    with True show ?thesis
      by (simp add: attendanceForm_submit_r1_def getAccurateLocation_r1_def Let_def) blast
  next
    case 3
    with True show ?thesis
      by (simp add: attendanceForm_submit_r1_def getAccurateLocation_r1_def Let_def) blast
  next
    case 4
    with True show ?thesis
      by (simp add: attendanceForm_submit_r1_def getAccurateLocation_r1_def Let_def) blast
  qed
  with s show ?thesis by blast
qed

text \<open>
  Claim C6, as stated, fails on the student page script: when the browser denies the
  position, the submit handler shows an informational message and opens the Wi-Fi
  prompt, and the button stays disabled under the label it had while waiting.
\<close>

theorem denied_geolocation_leaves_button_disabled:
  "markButton_disabled
     (attendanceForm_submit example_window (example_world\<lparr>gps := Inl denied\<rparr>) example_page)
   \<and> markButton_text
       (attendanceForm_submit example_window (example_world\<lparr>gps := Inl denied\<rparr>) example_page)
     = js ''Getting GPS Location...''
   \<and> status_className
       (attendanceForm_submit example_window (example_world\<lparr>gps := Inl denied\<rparr>) example_page)
     = js ''status-message info''"
  by (simp add: attendanceForm_submit_def getBrowserGpsLocation_def Let_def gps_failed_def
        openModal_def showStatusMessage_def setTimeout_def setTimer_def
        example_window_def example_world_def example_page_def status_class_info)

text \<open>
  Claim C6, amended. In both revisions of \<open>static/main.js\<close> every error of the location
  request during submission re-enables the submit button under its original label and,
  on a page with a status element, shows a message of class error: in the second
  revision an error of the first position request or of the high-accuracy watch, in the
  first a missing API key, a rejected fetch, a body that is not JSON, an error answer, or
  an answer without a location. In the student page script a failed browser position
  leaves the button disabled under the label \<open>Getting GPS Location...\<close>, opens the Wi-Fi
  prompt and shows a message of class info; the button is enabled again, under its
  original label and with a message of class error, whenever the retry through the
  external API fails.
\<close>

theorem geolocation_failure_and_the_button:
  "(has_geolocation w \<and> gps wd = Inl err \<longrightarrow>
      \<not> markButton_disabled (attendanceForm_submit_r2 w wd p)
      \<and> markButton_text (attendanceForm_submit_r2 w wd p) = js ''Mark My Attendance''
      \<and> (status_exists p \<longrightarrow>
            status_display (attendanceForm_submit_r2 w wd p) = js ''block''
            \<and> status_className (attendanceForm_submit_r2 w wd p) = js ''status-message error''
            \<and> status_textContent (attendanceForm_submit_r2 w wd p)
                = js ''Could not get location: '' @ message err))
   \<and> (has_geolocation w \<and> gps wd = Inr pos \<and> \<not> accuracy pos < 150 \<and> watch wd = Inl err \<longrightarrow>
      \<not> markButton_disabled (attendanceForm_submit_r2 w wd p)
      \<and> markButton_text (attendanceForm_submit_r2 w wd p) = js ''Mark My Attendance''
      \<and> (status_exists p \<longrightarrow>
            status_display (attendanceForm_submit_r2 w wd p) = js ''block''
            \<and> status_className (attendanceForm_submit_r2 w wd p) = js ''status-message error''
            \<and> status_textContent (attendanceForm_submit_r2 w wd p)
                = js ''Could not get an accurate location: '' @ message err))
   \<and> (\<not> truthy (GOOGLE_MAPS_API_KEY w) \<or> google wd = Failed
         \<or> google wd = Responded ok status None
         \<or> google wd = Responded False status' (Some d)
         \<or> (google wd = Responded True status'' (Some d') \<and> location d' = None) \<longrightarrow>
         \<not> markButton_disabled (attendanceForm_submit_r1 w wd p)
         \<and> markButton_text (attendanceForm_submit_r1 w wd p) = js ''Mark My Attendance''
         \<and> (status_exists p \<longrightarrow>
               status_display (attendanceForm_submit_r1 w wd p) = js ''block''
               \<and> status_className (attendanceForm_submit_r1 w wd p)
                   = js ''status-message error''))
   \<and> (\<not> has_geolocation w \<or> gps wd = Inl err \<longrightarrow>
         markButton_disabled (attendanceForm_submit w wd p)
         \<and> markButton_text (attendanceForm_submit w wd p) = js ''Getting GPS Location...''
         \<and> body_modal_open (attendanceForm_submit w wd p)
         \<and> (status_exists p \<longrightarrow>
               status_display (attendanceForm_submit w wd p) = js ''block''
               \<and> status_className (attendanceForm_submit w wd p) = js ''status-message info''
               \<and> status_textContent (attendanceForm_submit w wd p)
                   = js ''GPS failed. Please enable Wi-Fi for a more precise check.''))
   \<and> (fst (getGoogleApiLocation w wd p) = Inl e \<longrightarrow>
         \<not> markButton_disabled (retryWithGoogleBtn_click w wd p)
         \<and> markButton_text (retryWithGoogleBtn_click w wd p) = js ''Mark My Attendance''
         \<and> (status_exists p \<longrightarrow>
               status_display (retryWithGoogleBtn_click w wd p) = js ''block''
               \<and> status_className (retryWithGoogleBtn_click w wd p) = js ''status-message error''
               \<and> status_textContent (retryWithGoogleBtn_click w wd p)
                   = js ''Advanced location check failed. Please check your connection.''))"
proof (intro conjI)
  show "has_geolocation w \<and> gps wd = Inl err \<longrightarrow>
      \<not> markButton_disabled (attendanceForm_submit_r2 w wd p)
      \<and> markButton_text (attendanceForm_submit_r2 w wd p) = js ''Mark My Attendance''
      \<and> (status_exists p \<longrightarrow>
            status_display (attendanceForm_submit_r2 w wd p) = js ''block''
            \<and> status_className (attendanceForm_submit_r2 w wd p) = js ''status-message error''
            \<and> status_textContent (attendanceForm_submit_r2 w wd p)
                = js ''Could not get location: '' @ message err)"
  proof
    assume a: "has_geolocation w \<and> gps wd = Inl err"
    then have e: "attendanceForm_submit_r2 w wd p
           = submit_error_r2 (js ''Could not get location: '' @ message err)
               ((showStatusMessage_r2 (js ''Getting location...'') (js ''info'')
                   (p\<lparr>markButton_disabled := True, markButton_text := js ''Verifying...''\<rparr>))
                  \<lparr>geo_calls := geo_calls p @ [GetCurrentPosition low_accuracy_options]\<rparr>)"
      by (simp add: submit_r2_on_error)
    show "\<not> markButton_disabled (attendanceForm_submit_r2 w wd p)
      \<and> markButton_text (attendanceForm_submit_r2 w wd p) = js ''Mark My Attendance''
      \<and> (status_exists p \<longrightarrow>
            status_display (attendanceForm_submit_r2 w wd p) = js ''block''
            \<and> status_className (attendanceForm_submit_r2 w wd p) = js ''status-message error''
            \<and> status_textContent (attendanceForm_submit_r2 w wd p)
                = js ''Could not get location: '' @ message err)"
      unfolding e
      by (simp add: submit_error_r2_def showStatusMessage_r2_shown status_class_error)
  qed
next
  show "has_geolocation w \<and> gps wd = Inr pos \<and> \<not> accuracy pos < 150 \<and> watch wd = Inl err \<longrightarrow>
      \<not> markButton_disabled (attendanceForm_submit_r2 w wd p)
      \<and> markButton_text (attendanceForm_submit_r2 w wd p) = js ''Mark My Attendance''
      \<and> (status_exists p \<longrightarrow>
            status_display (attendanceForm_submit_r2 w wd p) = js ''block''
            \<and> status_className (attendanceForm_submit_r2 w wd p) = js ''status-message error''
            \<and> status_textContent (attendanceForm_submit_r2 w wd p)
                = js ''Could not get an accurate location: '' @ message err)"
  proof
    assume "has_geolocation w \<and> gps wd = Inr pos \<and> \<not> accuracy pos < 150 \<and> watch wd = Inl err"
    then have h: "has_geolocation w" "gps wd = Inr pos" "\<not> accuracy pos < 150"
      "watch wd = Inl err" by blast+
    from submit_r2_on_watch_error [OF h, of p]
    obtain q where e: "attendanceForm_submit_r2 w wd p
               = submit_error_r2 (js ''Could not get an accurate location: '' @ message err) q"
      and q: "status_exists q = status_exists p" by blast
    show "\<not> markButton_disabled (attendanceForm_submit_r2 w wd p)
      \<and> markButton_text (attendanceForm_submit_r2 w wd p) = js ''Mark My Attendance''
      \<and> (status_exists p \<longrightarrow>
            status_display (attendanceForm_submit_r2 w wd p) = js ''block''
            \<and> status_className (attendanceForm_submit_r2 w wd p) = js ''status-message error''
            \<and> status_textContent (attendanceForm_submit_r2 w wd p)
                = js ''Could not get an accurate location: '' @ message err)"
      unfolding e using q
      by (simp add: submit_error_r2_def showStatusMessage_r2_shown status_class_error)
  qed
next
  show "\<not> truthy (GOOGLE_MAPS_API_KEY w) \<or> google wd = Failed
         \<or> google wd = Responded ok status None
         \<or> google wd = Responded False status' (Some d)
         \<or> (google wd = Responded True status'' (Some d') \<and> location d' = None) \<longrightarrow>
         \<not> markButton_disabled (attendanceForm_submit_r1 w wd p)
         \<and> markButton_text (attendanceForm_submit_r1 w wd p) = js ''Mark My Attendance''
         \<and> (status_exists p \<longrightarrow>
               status_display (attendanceForm_submit_r1 w wd p) = js ''block''
               \<and> status_className (attendanceForm_submit_r1 w wd p)
                   = js ''status-message error'')"
  proof
    assume "\<not> truthy (GOOGLE_MAPS_API_KEY w) \<or> google wd = Failed
         \<or> google wd = Responded ok status None
         \<or> google wd = Responded False status' (Some d)
         \<or> (google wd = Responded True status'' (Some d') \<and> location d' = None)"
    from submit_r1_on_any_error [OF this, of p]
    obtain msg q where e: "attendanceForm_submit_r1 w wd p = submit_error_r1 msg q"
      and q: "status_exists q = status_exists p" by blast
    show "\<not> markButton_disabled (attendanceForm_submit_r1 w wd p)
         \<and> markButton_text (attendanceForm_submit_r1 w wd p) = js ''Mark My Attendance''
         \<and> (status_exists p \<longrightarrow>
               status_display (attendanceForm_submit_r1 w wd p) = js ''block''
               \<and> status_className (attendanceForm_submit_r1 w wd p)
                   = js ''status-message error'')"
      unfolding e using q
      by (simp add: submit_error_r1_def showStatusMessage_shown status_class_error)
  qed
next
  show "\<not> has_geolocation w \<or> gps wd = Inl err \<longrightarrow>
         markButton_disabled (attendanceForm_submit w wd p)
         \<and> markButton_text (attendanceForm_submit w wd p) = js ''Getting GPS Location...''
         \<and> body_modal_open (attendanceForm_submit w wd p)
         \<and> (status_exists p \<longrightarrow>
               status_display (attendanceForm_submit w wd p) = js ''block''
               \<and> status_className (attendanceForm_submit w wd p) = js ''status-message info''
               \<and> status_textContent (attendanceForm_submit w wd p)
                   = js ''GPS failed. Please enable Wi-Fi for a more precise check.'')"
  proof
    assume "\<not> has_geolocation w \<or> gps wd = Inl err"
    then have "\<not> has_geolocation w \<or> (\<exists>err. gps wd = Inl err)" by blast
    from submit_on_gps_error [OF this, of p]
    obtain q where e: "attendanceForm_submit w wd p = gps_failed q"
      and q: "markButton_disabled q" "markButton_text q = js ''Getting GPS Location...''"
        "status_exists q = status_exists p"
      by blast
    show "markButton_disabled (attendanceForm_submit w wd p)
         \<and> markButton_text (attendanceForm_submit w wd p) = js ''Getting GPS Location...''
         \<and> body_modal_open (attendanceForm_submit w wd p)
         \<and> (status_exists p \<longrightarrow>
               status_display (attendanceForm_submit w wd p) = js ''block''
               \<and> status_className (attendanceForm_submit w wd p) = js ''status-message info''
               \<and> status_textContent (attendanceForm_submit w wd p)
                   = js ''GPS failed. Please enable Wi-Fi for a more precise check.'')"
      unfolding e using q
      by (simp add: gps_failed_def openModal_def showStatusMessage_shown status_class_info)
  qed
next
  show "fst (getGoogleApiLocation w wd p) = Inl e \<longrightarrow>
         \<not> markButton_disabled (retryWithGoogleBtn_click w wd p)
         \<and> markButton_text (retryWithGoogleBtn_click w wd p) = js ''Mark My Attendance''
         \<and> (status_exists p \<longrightarrow>
               status_display (retryWithGoogleBtn_click w wd p) = js ''block''
               \<and> status_className (retryWithGoogleBtn_click w wd p) = js ''status-message error''
               \<and> status_textContent (retryWithGoogleBtn_click w wd p)
                   = js ''Advanced location check failed. Please check your connection.'')"
  proof
    assume "fst (getGoogleApiLocation w wd p) = Inl e"
    from retry_on_google_error [OF this]
    obtain q where e: "retryWithGoogleBtn_click w wd p = google_failed q"
      and q: "status_exists q = status_exists p" by blast
    show "\<not> markButton_disabled (retryWithGoogleBtn_click w wd p)
         \<and> markButton_text (retryWithGoogleBtn_click w wd p) = js ''Mark My Attendance''
         \<and> (status_exists p \<longrightarrow>
               status_display (retryWithGoogleBtn_click w wd p) = js ''block''
               \<and> status_className (retryWithGoogleBtn_click w wd p) = js ''status-message error''
               \<and> status_textContent (retryWithGoogleBtn_click w wd p)
                   = js ''Advanced location check failed. Please check your connection.'')"
      unfolding e using q
      by (simp add: google_failed_def resetSubmitButton_def showStatusMessage_shown
            status_class_error)
  qed
qed

theorem geolocation_failure_and_the_button_witness:
  "\<not> markButton_disabled
       (attendanceForm_submit_r2 example_window (example_world\<lparr>gps := Inl denied\<rparr>) example_page)
   \<and> status_className
       (attendanceForm_submit_r2 example_window (example_world\<lparr>gps := Inl denied\<rparr>) example_page)
     = js ''status-message error''
   \<and> \<not> markButton_disabled (attendanceForm_submit_r2 example_window watch_fails_world example_page)
   \<and> status_textContent (attendanceForm_submit_r2 example_window watch_fails_world example_page)
     = js ''Could not get an accurate location: '' @ js ''Timeout expired''
   \<and> \<not> markButton_disabled (attendanceForm_submit_r1 keyed_window google_refuses_world example_page)
   \<and> status_className (attendanceForm_submit_r1 keyed_window google_refuses_world example_page)
     = js ''status-message error''
   \<and> \<not> markButton_disabled (attendanceForm_submit_r1 keyed_window example_world example_page)
   \<and> \<not> markButton_disabled (attendanceForm_submit_r1 example_window example_world example_page)
   \<and> body_modal_open
       (attendanceForm_submit example_window (example_world\<lparr>gps := Inl denied\<rparr>) example_page)
   \<and> \<not> markButton_disabled (retryWithGoogleBtn_click keyed_window example_world example_page)
   \<and> \<not> markButton_disabled (retryWithGoogleBtn_click keyed_window google_refuses_world example_page)
   \<and> \<not> markButton_disabled (retryWithGoogleBtn_click example_window example_world example_page)"
proof -
  let ?wd = "example_world\<lparr>gps := Inl denied\<rparr>"
  let ?pos = "\<lparr>latitude = 23.8244, longitude = 78.7706, accuracy = 150\<rparr> :: coords"
  let ?cfg = "Error (js ''Configuration error: Google Maps API key is not set.'')"
  let ?e403 = "Error (js ''Google API responded with status '' @ toString10 403)"
  have s: "status_exists example_page" by (simp add: example_page_def)
  have g: "has_geolocation example_window \<and> gps ?wd = Inl denied"
    by (simp add: example_window_def)
  have d: "\<not> has_geolocation example_window \<or> gps ?wd = Inl denied"
    by simp
  have wf: "has_geolocation example_window \<and> gps watch_fails_world = Inr ?pos
      \<and> \<not> accuracy ?pos < 150 \<and> watch watch_fails_world = Inl timed_out"
    by (simp add: example_window_def watch_fails_world_def example_world_def)
  have m: "message timed_out = js ''Timeout expired''" by (simp add: timed_out_def)
  have k0: "\<not> truthy (GOOGLE_MAPS_API_KEY example_window)"
    by (simp add: example_window_def truthy_def)
  have k1: "google example_world = Failed" by (simp add: example_world_def)
  have k2: "google google_refuses_world = Responded False 403 (Some google_refusal)"
    by (simp add: google_refuses_world_def)
  have key: "GOOGLE_MAPS_API_KEY keyed_window = Some (js ''AIza'')" "js ''AIza'' \<noteq> []"
    "js ''AIza'' \<noteq> js ''YOUR_GOOGLE_MAPS_API_KEY''"
    by (simp_all add: keyed_window_def js_def)
  have a0: "fst (getGoogleApiLocation example_window example_world example_page) = Inl ?cfg"
    by (simp add: getGoogleApiLocation_def example_window_def)
  have a1: "fst (getGoogleApiLocation keyed_window example_world example_page) = Inl FetchError"
    using key k1 by (simp add: getGoogleApiLocation_def Let_def)
  have a2: "fst (getGoogleApiLocation keyed_window google_refuses_world example_page) = Inl ?e403"
    using key k2 by (simp add: getGoogleApiLocation_def Let_def)
  note t = geolocation_failure_and_the_button
  from t [of example_window ?wd denied example_page] g s
  have 1: "\<not> markButton_disabled (attendanceForm_submit_r2 example_window ?wd example_page)
     \<and> status_className (attendanceForm_submit_r2 example_window ?wd example_page)
         = js ''status-message error''" by blast
  from t [of example_window watch_fails_world timed_out example_page ?pos] wf s m
  have 2: "\<not> markButton_disabled
       (attendanceForm_submit_r2 example_window watch_fails_world example_page)
     \<and> status_textContent (attendanceForm_submit_r2 example_window watch_fails_world example_page)
         = js ''Could not get an accurate location: '' @ js ''Timeout expired''" by metis
  from t [of keyed_window google_refuses_world _ example_page _ _ _ 403 google_refusal] k2 s
  have 3: "\<not> markButton_disabled
       (attendanceForm_submit_r1 keyed_window google_refuses_world example_page)
     \<and> status_className (attendanceForm_submit_r1 keyed_window google_refuses_world example_page)
         = js ''status-message error''" by blast
  from t [of keyed_window example_world _ example_page] k1
  have 4: "\<not> markButton_disabled (attendanceForm_submit_r1 keyed_window example_world example_page)"
    by blast
  from t [of example_window example_world _ example_page] k0
  have 5: "\<not> markButton_disabled (attendanceForm_submit_r1 example_window example_world example_page)"
    by blast
  from t [of example_window ?wd denied example_page] d
  have 6: "body_modal_open (attendanceForm_submit example_window ?wd example_page)" by blast
  from t [of keyed_window example_world _ example_page _ _ _ _ _ _ _ FetchError] a1
  have 7: "\<not> markButton_disabled (retryWithGoogleBtn_click keyed_window example_world example_page)"
    by blast
  from t [of keyed_window google_refuses_world _ example_page _ _ _ _ _ _ _ ?e403] a2
  have 8: "\<not> markButton_disabled
       (retryWithGoogleBtn_click keyed_window google_refuses_world example_page)"
    by blast
  from t [of example_window example_world _ example_page _ _ _ _ _ _ _ ?cfg] a0
  have 9: "\<not> markButton_disabled (retryWithGoogleBtn_click example_window example_world example_page)"
    by blast
  from 1 2 3 4 5 6 7 8 9 show ?thesis by blast
qed

section \<open>How failures are reported\<close>

lemma same_runtime_refl [simp]: "same_runtime p p"
  by (simp add: same_runtime_def)

lemma showStatusMessage_timer:
  assumes "status_exists p"
  shows "timers (showStatusMessage msg ty p)
           = timers p @ [\<lparr>timer_id = next_timer_id p, delay = 6000, repeating = False,
                           callback = HideStatus\<rparr>]"
    and "unhandled (showStatusMessage msg ty p) = unhandled p"
    and "next_timer_id (showStatusMessage msg ty p) = Suc (next_timer_id p)"
  using assms by (simp_all add: showStatusMessage_def setTimeout_def setTimer_def)

lemma showStatusMessage_r2_timer:
  assumes "status_exists p"
  shows "timers (showStatusMessage_r2 msg ty p)
           = timers p @ [\<lparr>timer_id = next_timer_id p, delay = 5000, repeating = False,
                           callback = HideStatus\<rparr>]"
    and "unhandled (showStatusMessage_r2 msg ty p) = unhandled p"
    and "next_timer_id (showStatusMessage_r2 msg ty p) = Suc (next_timer_id p)"
  using assms by (simp_all add: showStatusMessage_r2_def setTimeout_def setTimer_def)

lemma find_last_timer:
  "\<forall>t \<in> set ts. timer_id t \<noteq> n \<Longrightarrow> timer_id x = n
     \<Longrightarrow> find (\<lambda>t. timer_id t = n) (ts @ [x]) = Some x"
  by (induction ts) auto

lemma fire_hides_status:
  assumes "\<forall>t \<in> set ts. timer_id t \<noteq> n"
    and "timers q = ts @ [\<lparr>timer_id = n, delay = d, repeating = False, callback = HideStatus\<rparr>]"
  shows "status_display (fire w wd n q) = js ''none''"
proof -
  have "find (\<lambda>t. timer_id t = n) (timers q)
      = Some \<lparr>timer_id = n, delay = d, repeating = False, callback = HideStatus\<rparr>"
    unfolding assms(2) using assms(1) by (intro find_last_timer) simp_all
  then show ?thesis
    by (simp add: fire_def run_callback_def hideStatus_def clearTimer_def)
qed

lemma gps_failed_effects:
  assumes "status_exists q"
  shows "status_display (gps_failed q) = js ''block''"
    and "status_textContent (gps_failed q)
           = js ''GPS failed. Please enable Wi-Fi for a more precise check.''"
    and "timers (gps_failed q)
           = timers q @ [\<lparr>timer_id = next_timer_id q, delay = 6000, repeating = False,
                           callback = HideStatus\<rparr>]"
    and "unhandled (gps_failed q) = unhandled q"
  using assms
  by (simp_all add: gps_failed_def openModal_def showStatusMessage_shown showStatusMessage_timer)

lemma google_failed_effects:
  assumes "status_exists q"
  shows "status_display (google_failed q) = js ''block''"
    and "status_textContent (google_failed q)
           = js ''Advanced location check failed. Please check your connection.''"
    and "timers (google_failed q)
           = timers q @ [\<lparr>timer_id = next_timer_id q, delay = 6000, repeating = False,
                           callback = HideStatus\<rparr>]"
    and "unhandled (google_failed q) = unhandled q"
  using assms
  by (simp_all add: google_failed_def resetSubmitButton_def showStatusMessage_shown
        showStatusMessage_timer)

lemma submit_gps_error_page:
  assumes "\<not> has_geolocation w \<or> (\<exists>err. gps wd = Inl err)"
  shows "\<exists>q. attendanceForm_submit w wd p = gps_failed q \<and> same_runtime p q
            \<and> fetches q = fetches p
            \<and> length (geo_calls q) \<le> Suc (length (geo_calls p))"
  using assms
  by (auto simp: attendanceForm_submit_def getBrowserGpsLocation_def Let_def same_runtime_def)

lemma submit_post_error_page:
  assumes "has_geolocation w" and "gps wd = Inr pos"
    and "activeSessionDataStudent w = None \<or> mark wd = Failed
          \<or> (\<exists>ok status. mark wd = Responded ok status None)"
  shows "\<exists>q. attendanceForm_submit w wd p = gps_failed q \<and> same_runtime p q"
proof -
  let ?p2 = "p\<lparr>markButton_disabled := True, spinner_display := js ''inline-block'',
                 markButton_text := js ''Getting GPS Location...'',
                 tips_display := js ''none'',
                 geo_calls := geo_calls p @ [GetCurrentPosition gps_options]\<rparr>"
  have g: "getBrowserGpsLocation w wd
             (p\<lparr>markButton_disabled := True, spinner_display := js ''inline-block'',
                 markButton_text := js ''Getting GPS Location...'',
                 tips_display := js ''none''\<rparr>) = (Inr pos, ?p2)"
    using assms by (simp add: getBrowserGpsLocation_def Let_def)
  have "\<exists>e q. handleAttendanceSubmission w wd pos (js ''gps'') ?p2 = (Some e, q)
          \<and> same_runtime ?p2 q"
  proof (cases "activeSessionDataStudent w")
    case None
    then show ?thesis by (simp add: handleAttendanceSubmission_def)
  next
    case (Some sd)
    with assms(3) consider "mark wd = Failed" | ok status where "mark wd = Responded ok status None"
      by auto
    then show ?thesis
    proof cases
      case 1
      with Some show ?thesis
        by (simp add: handleAttendanceSubmission_def Let_def do_fetch_def same_runtime_def)
    next
      case 2
      with Some show ?thesis
        by (simp add: handleAttendanceSubmission_def Let_def do_fetch_def same_runtime_def)
    qed
  qed
  then obtain e q where h: "handleAttendanceSubmission w wd pos (js ''gps'') ?p2 = (Some e, q)"
    and q: "same_runtime ?p2 q" by blast
  from q have "same_runtime p q" by (simp add: same_runtime_def)
  moreover have "attendanceForm_submit w wd p = gps_failed q"
    unfolding attendanceForm_submit_def Let_def g by (simp add: h)
  ultimately show ?thesis by blast
qed

lemma retry_google_error_page:
  assumes "fst (getGoogleApiLocation w wd p) = Inl e"
  shows "\<exists>q. retryWithGoogleBtn_click w wd p = google_failed q \<and> same_runtime p q
            \<and> geo_calls q = geo_calls p
            \<and> length (fetches q) \<le> Suc (length (fetches p))"
proof -
  let ?p1 = "(closeModal p)\<lparr>markButton_text := js ''Getting Wi-Fi Location...''\<rparr>"
  have "fst (getGoogleApiLocation w wd ?p1) = Inl e"
    using assms getGoogleApiLocation_result [of w wd ?p1 p] by simp
  then obtain q where g: "getGoogleApiLocation w wd ?p1 = (Inl e, q)"
    by (cases "getGoogleApiLocation w wd ?p1") simp
  have "same_runtime ?p1 (snd (getGoogleApiLocation w wd ?p1))
      \<and> geo_calls (snd (getGoogleApiLocation w wd ?p1)) = geo_calls ?p1
      \<and> length (fetches (snd (getGoogleApiLocation w wd ?p1))) \<le> Suc (length (fetches ?p1))"
    by (simp add: getGoogleApiLocation_def Let_def do_fetch_def same_runtime_def
          split: option.splits fetched.splits)
  with g have "same_runtime p q \<and> geo_calls q = geo_calls p
      \<and> length (fetches q) \<le> Suc (length (fetches p))"
    by (simp add: same_runtime_def closeModal_def)
  moreover have "retryWithGoogleBtn_click w wd p = google_failed q"
    by (simp add: retryWithGoogleBtn_click_def Let_def g)
  ultimately show ?thesis by blast
qed

lemma submit_r2_error_effects:
  assumes "status_exists p" and "has_geolocation w" and "gps wd = Inl err"
  shows "status_display (attendanceForm_submit_r2 w wd p) = js ''block''"
    and "status_textContent (attendanceForm_submit_r2 w wd p)
           = js ''Could not get location: '' @ message err"
    and "timers (attendanceForm_submit_r2 w wd p)
           = timers p @ [\<lparr>timer_id = next_timer_id p, delay = 5000, repeating = False,
                           callback = HideStatus\<rparr>,
                         \<lparr>timer_id = Suc (next_timer_id p), delay = 5000, repeating = False,
                           callback = HideStatus\<rparr>]"
    and "unhandled (attendanceForm_submit_r2 w wd p) = unhandled p"
  unfolding submit_r2_on_error [OF assms(2,3)]
  using assms(1)
  by (simp_all add: submit_error_r2_def showStatusMessage_r2_def setTimeout_def setTimer_def)

text \<open>
  Claim C5, as stated, fails: when the request for the present-student list fails, no
  status message is shown and no timer is set; the failure is written to the console.
\<close>

theorem failed_list_fetch_shows_no_message:
  "present example_world = Failed
   \<and> status_display (fetchPresentStudents 7 example_world example_page) = js ''none''
   \<and> timers (fetchPresentStudents 7 example_world example_page) = []
   \<and> console (fetchPresentStudents 7 example_world example_page)
       = [js ''Could not fetch present students:'']"
  by (simp add: fetchPresentStudents_def Let_def do_fetch_def example_world_def
        example_page_def)

text \<open>
  Claim C5, amended. \<open>showStatusMessage\<close> shows the message and registers a timeout of
  6000 ms that hides it when it fires. On a page with a status element, a failed browser
  position or a failed attendance post in the submit handler, a failed external
  geolocation request in the retry handler, and a failed first position in the second
  revision of \<open>static/main.js\<close> (5000 ms there) each end with such a message shown, with
  no unhandled exception, and with no further request made by the handler itself: none
  at all after a failed browser position, at most the one request to the external API
  in the retry handler, and no watch after a failed first position. A failed request for
  the present-student list changes neither the status message nor the timers.
\<close>

theorem failures_on_the_attendance_path:
  "(status_exists p \<and> (\<forall>t \<in> set (timers p). timer_id t \<noteq> next_timer_id p) \<longrightarrow>
      status_display (showStatusMessage msg ty p) = js ''block''
      \<and> timers (showStatusMessage msg ty p)
          = timers p @ [\<lparr>timer_id = next_timer_id p, delay = 6000, repeating = False,
                          callback = HideStatus\<rparr>]
      \<and> status_display (fire w wd (next_timer_id p) (showStatusMessage msg ty p)) = js ''none'')
   \<and> (status_exists p \<and> (\<not> has_geolocation w \<or> gps wd = Inl err) \<longrightarrow>
      status_display (attendanceForm_submit w wd p) = js ''block''
      \<and> status_textContent (attendanceForm_submit w wd p)
          = js ''GPS failed. Please enable Wi-Fi for a more precise check.''
      \<and> timers (attendanceForm_submit w wd p)
          = timers p @ [\<lparr>timer_id = next_timer_id p, delay = 6000, repeating = False,
                          callback = HideStatus\<rparr>]
      \<and> unhandled (attendanceForm_submit w wd p) = unhandled p
      \<and> fetches (attendanceForm_submit w wd p) = fetches p
      \<and> length (geo_calls (attendanceForm_submit w wd p)) \<le> Suc (length (geo_calls p)))
   \<and> (status_exists p \<and> has_geolocation w \<and> gps wd = Inr pos \<and> mark wd = Failed \<longrightarrow>
      status_display (attendanceForm_submit w wd p) = js ''block''
      \<and> timers (attendanceForm_submit w wd p)
          = timers p @ [\<lparr>timer_id = next_timer_id p, delay = 6000, repeating = False,
                          callback = HideStatus\<rparr>]
      \<and> unhandled (attendanceForm_submit w wd p) = unhandled p)
   \<and> (status_exists p \<and> fst (getGoogleApiLocation w wd p) = Inl e \<longrightarrow>
      status_display (retryWithGoogleBtn_click w wd p) = js ''block''
      \<and> status_textContent (retryWithGoogleBtn_click w wd p)
          = js ''Advanced location check failed. Please check your connection.''
      \<and> timers (retryWithGoogleBtn_click w wd p)
          = timers p @ [\<lparr>timer_id = next_timer_id p, delay = 6000, repeating = False,
                          callback = HideStatus\<rparr>]
      \<and> unhandled (retryWithGoogleBtn_click w wd p) = unhandled p
      \<and> geo_calls (retryWithGoogleBtn_click w wd p) = geo_calls p
      \<and> length (fetches (retryWithGoogleBtn_click w wd p)) \<le> Suc (length (fetches p)))
   \<and> (status_exists p \<and> has_geolocation w \<and> gps wd = Inl err \<longrightarrow>
      status_display (attendanceForm_submit_r2 w wd p) = js ''block''
      \<and> status_textContent (attendanceForm_submit_r2 w wd p)
          = js ''Could not get location: '' @ message err
      \<and> timers (attendanceForm_submit_r2 w wd p)
          = timers p @ [\<lparr>timer_id = next_timer_id p, delay = 5000, repeating = False,
                          callback = HideStatus\<rparr>,
                        \<lparr>timer_id = Suc (next_timer_id p), delay = 5000, repeating = False,
                          callback = HideStatus\<rparr>]
      \<and> unhandled (attendanceForm_submit_r2 w wd p) = unhandled p
      \<and> geo_calls (attendanceForm_submit_r2 w wd p)
          = geo_calls p @ [GetCurrentPosition low_accuracy_options])
   \<and> (present wd = Failed \<longrightarrow>
      status_display (fetchPresentStudents i wd p) = status_display p
      \<and> timers (fetchPresentStudents i wd p) = timers p
      \<and> unhandled (fetchPresentStudents i wd p) = unhandled p)"
proof (intro conjI impI)
  assume a: "status_exists p \<and> (\<forall>t \<in> set (timers p). timer_id t \<noteq> next_timer_id p)"
  then show "status_display (showStatusMessage msg ty p) = js ''block''"
    by (simp add: showStatusMessage_shown)
  from a show t: "timers (showStatusMessage msg ty p)
          = timers p @ [\<lparr>timer_id = next_timer_id p, delay = 6000, repeating = False,
                          callback = HideStatus\<rparr>]"
    by (simp add: showStatusMessage_timer)
  from a have "\<forall>t \<in> set (timers p). timer_id t \<noteq> next_timer_id p" by simp
  from fire_hides_status [OF this t]
  show "status_display (fire w wd (next_timer_id p) (showStatusMessage msg ty p)) = js ''none''" .
next
  assume a: "status_exists p \<and> (\<not> has_geolocation w \<or> gps wd = Inl err)"
  then have "\<not> has_geolocation w \<or> (\<exists>err. gps wd = Inl err)" by blast
  from submit_gps_error_page [OF this, of p]
  obtain q where e: "attendanceForm_submit w wd p = gps_failed q" and r: "same_runtime p q"
    and f: "fetches q = fetches p" and g: "length (geo_calls q) \<le> Suc (length (geo_calls p))"
    by blast
  from a r have s: "status_exists q" by (simp add: same_runtime_def)
  show "status_display (attendanceForm_submit w wd p) = js ''block''"
    unfolding e by (rule gps_failed_effects [OF s])
  show "status_textContent (attendanceForm_submit w wd p)
          = js ''GPS failed. Please enable Wi-Fi for a more precise check.''"
    unfolding e by (rule gps_failed_effects [OF s])
  show "timers (attendanceForm_submit w wd p)
          = timers p @ [\<lparr>timer_id = next_timer_id p, delay = 6000, repeating = False,
                          callback = HideStatus\<rparr>]"
    unfolding e using gps_failed_effects(3) [OF s] r by (simp add: same_runtime_def)
  show "unhandled (attendanceForm_submit w wd p) = unhandled p"
    unfolding e using gps_failed_effects(4) [OF s] r by (simp add: same_runtime_def)
  show "fetches (attendanceForm_submit w wd p) = fetches p"
    unfolding e using f by simp
  show "length (geo_calls (attendanceForm_submit w wd p)) \<le> Suc (length (geo_calls p))"
    unfolding e using g by simp
next
  assume a: "status_exists p \<and> has_geolocation w \<and> gps wd = Inr pos \<and> mark wd = Failed"
  then have "\<exists>q. attendanceForm_submit w wd p = gps_failed q \<and> same_runtime p q"
    by (intro submit_post_error_page) simp_all
  then obtain q where e: "attendanceForm_submit w wd p = gps_failed q"
    and r: "same_runtime p q" by blast
  from a r have s: "status_exists q" by (simp add: same_runtime_def)
  show "status_display (attendanceForm_submit w wd p) = js ''block''"
    unfolding e by (rule gps_failed_effects [OF s])
  show "timers (attendanceForm_submit w wd p)
          = timers p @ [\<lparr>timer_id = next_timer_id p, delay = 6000, repeating = False,
                          callback = HideStatus\<rparr>]"
    unfolding e using gps_failed_effects(3) [OF s] r by (simp add: same_runtime_def)
  show "unhandled (attendanceForm_submit w wd p) = unhandled p"
    unfolding e using gps_failed_effects(4) [OF s] r by (simp add: same_runtime_def)
next
  assume a: "status_exists p \<and> fst (getGoogleApiLocation w wd p) = Inl e"
  then have "fst (getGoogleApiLocation w wd p) = Inl e" by simp
  from retry_google_error_page [OF this]
  obtain q where e: "retryWithGoogleBtn_click w wd p = google_failed q"
    and r: "same_runtime p q" and g: "geo_calls q = geo_calls p"
    and f: "length (fetches q) \<le> Suc (length (fetches p))" by blast
  from a r have s: "status_exists q" by (simp add: same_runtime_def)
  show "status_display (retryWithGoogleBtn_click w wd p) = js ''block''"
    unfolding e by (rule google_failed_effects [OF s])
  show "status_textContent (retryWithGoogleBtn_click w wd p)
          = js ''Advanced location check failed. Please check your connection.''"
    unfolding e by (rule google_failed_effects [OF s])
  show "timers (retryWithGoogleBtn_click w wd p)
          = timers p @ [\<lparr>timer_id = next_timer_id p, delay = 6000, repeating = False,
                          callback = HideStatus\<rparr>]"
    unfolding e using google_failed_effects(3) [OF s] r by (simp add: same_runtime_def)
  show "unhandled (retryWithGoogleBtn_click w wd p) = unhandled p"
    unfolding e using google_failed_effects(4) [OF s] r by (simp add: same_runtime_def)
  show "geo_calls (retryWithGoogleBtn_click w wd p) = geo_calls p"
    unfolding e using g by (simp add: google_failed_def resetSubmitButton_def)
  show "length (fetches (retryWithGoogleBtn_click w wd p)) \<le> Suc (length (fetches p))"
    unfolding e using f by simp
next
  assume a: "status_exists p \<and> has_geolocation w \<and> gps wd = Inl err"
  then have s: "status_exists p" and h: "has_geolocation w" and g: "gps wd = Inl err"
    by simp_all
  show "status_display (attendanceForm_submit_r2 w wd p) = js ''block''"
    by (rule submit_r2_error_effects [OF s h g])
  show "status_textContent (attendanceForm_submit_r2 w wd p)
          = js ''Could not get location: '' @ message err"
    by (rule submit_r2_error_effects [OF s h g])
  show "timers (attendanceForm_submit_r2 w wd p)
          = timers p @ [\<lparr>timer_id = next_timer_id p, delay = 5000, repeating = False,
                          callback = HideStatus\<rparr>,
                        \<lparr>timer_id = Suc (next_timer_id p), delay = 5000, repeating = False,
                          callback = HideStatus\<rparr>]"
    by (rule submit_r2_error_effects [OF s h g])
  show "unhandled (attendanceForm_submit_r2 w wd p) = unhandled p"
    by (rule submit_r2_error_effects [OF s h g])
  show "geo_calls (attendanceForm_submit_r2 w wd p)
          = geo_calls p @ [GetCurrentPosition low_accuracy_options]"
    using geo_calls_attendanceForm_submit_r2 [OF h, of wd p] g by simp
next
  assume a: "present wd = Failed"
  then show "status_display (fetchPresentStudents i wd p) = status_display p"
    by (simp add: fetchPresentStudents_def Let_def do_fetch_def)
  from a show "timers (fetchPresentStudents i wd p) = timers p"
    by (simp add: fetchPresentStudents_def Let_def do_fetch_def)
  from a show "unhandled (fetchPresentStudents i wd p) = unhandled p"
    by (simp add: fetchPresentStudents_def Let_def do_fetch_def)
qed

theorem failures_on_the_attendance_path_witness:
  "status_display
     (fire example_window example_world 1
        (showStatusMessage (js ''Update failed.'') (js ''error'') example_page)) = js ''none''
   \<and> status_display
       (attendanceForm_submit example_window (example_world\<lparr>gps := Inl denied\<rparr>) example_page)
     = js ''block''
   \<and> status_display
       (attendanceForm_submit example_window (example_world\<lparr>mark := Failed\<rparr>) example_page)
     = js ''block''
   \<and> unhandled
       (retryWithGoogleBtn_click example_window example_world example_page) = []
   \<and> geo_calls
       (attendanceForm_submit_r2 example_window (example_world\<lparr>gps := Inl denied\<rparr>)
          example_page)
     = [GetCurrentPosition low_accuracy_options]
   \<and> timers (fetchPresentStudents 7 example_world example_page) = []"
proof -
  let ?e = "Error (js ''Configuration error: Google Maps API key is not set.'')"
  let ?pos = "\<lparr>latitude = 23.8244, longitude = 78.7706, accuracy = 150\<rparr> :: coords"
  have p: "status_exists example_page
      \<and> (\<forall>t \<in> set (timers example_page). timer_id t \<noteq> next_timer_id example_page)"
    "next_timer_id example_page = 1" "timers example_page = []"
    "unhandled example_page = []" "geo_calls example_page = []"
    by (simp_all add: example_page_def)
  have d: "status_exists example_page
      \<and> (\<not> has_geolocation example_window \<or> gps (example_world\<lparr>gps := Inl denied\<rparr>) = Inl denied)"
    by (simp add: example_page_def)
  have m: "status_exists example_page \<and> has_geolocation example_window
      \<and> gps (example_world\<lparr>mark := Failed\<rparr>) = Inr ?pos
      \<and> mark (example_world\<lparr>mark := Failed\<rparr>) = Failed"
    by (simp add: example_page_def example_window_def example_world_def)
  have g: "status_exists example_page
      \<and> fst (getGoogleApiLocation example_window example_world example_page) = Inl ?e"
    by (simp add: example_page_def getGoogleApiLocation_def example_window_def)
  have r: "status_exists example_page \<and> has_geolocation example_window
      \<and> gps (example_world\<lparr>gps := Inl denied\<rparr>) = Inl denied"
    by (simp add: example_page_def example_window_def)
  have f: "present example_world = Failed" by (simp add: example_world_def)
  note t1 = failures_on_the_attendance_path
      [of example_page "js ''Update failed.''" "js ''error''" example_window example_world
          denied ?pos ?e 7]
  note t2 = failures_on_the_attendance_path
      [of example_page "js ''Update failed.''" "js ''error''" example_window
          "example_world\<lparr>gps := Inl denied\<rparr>" denied ?pos ?e 7]
  note t3 = failures_on_the_attendance_path
      [of example_page "js ''Update failed.''" "js ''error''" example_window
          "example_world\<lparr>mark := Failed\<rparr>" denied ?pos ?e 7]
  from t1 p(1) have 1: "status_display
     (fire example_window example_world (next_timer_id example_page)
        (showStatusMessage (js ''Update failed.'') (js ''error'') example_page)) = js ''none''"
    by blast
  from t2 d have 2: "status_display
       (attendanceForm_submit example_window (example_world\<lparr>gps := Inl denied\<rparr>) example_page)
     = js ''block''" by blast
  from t3 m have 3: "status_display
       (attendanceForm_submit example_window (example_world\<lparr>mark := Failed\<rparr>) example_page)
     = js ''block''" by blast
  from t1 g have 4: "unhandled (retryWithGoogleBtn_click example_window example_world example_page)
     = unhandled example_page" by blast
  from t2 r have 5: "geo_calls
       (attendanceForm_submit_r2 example_window (example_world\<lparr>gps := Inl denied\<rparr>)
          example_page)
     = geo_calls example_page @ [GetCurrentPosition low_accuracy_options]" by blast
  from t1 f have 6: "timers (fetchPresentStudents 7 example_world example_page)
     = timers example_page" by blast
  from 1 2 3 4 5 6 p(2-) show ?thesis by simp
qed

section \<open>Polling the present-student list\<close>

lemma polling_update [simp]:
  "polling t (form_display_update f1 q) = polling t q"
  "polling t (status_textContent_update f2 q) = polling t q"
  "polling t (status_className_update f3 q) = polling t q"
  "polling t (status_display_update f4 q) = polling t q"
  "polling t (presentList_innerHTML_update f5 q) = polling t q"
  "polling t (timerElement_textContent_update f6 q) = polling t q"
  "polling t (markButton_disabled_update f7 q) = polling t q"
  "polling t (markButton_text_update f8 q) = polling t q"
  "polling t (spinner_display_update f9 q) = polling t q"
  "polling t (tips_display_update f10 q) = polling t q"
  "polling t (wifiModal_display_update f11 q) = polling t q"
  "polling t (body_modal_open_update f12 q) = polling t q"
  "polling t (enrollment_value_update f13 q) = polling t q"
  "polling t (nameDisplay_textContent_update f14 q) = polling t q"
  "polling t (nameDisplay_color_update f15 q) = polling t q"
  "polling t (fetches_update f16 q) = polling t q"
  "polling t (geo_calls_update f17 q) = polling t q"
  "polling t (console_update f18 q) = polling t q"
  "polling t (unhandled_update f19 q) = polling t q"
  "polling t (reload_requested_update f20 q) = polling t q"
  by (simp_all add: polling_def split: option.splits)




lemma polling_simple [simp]:
  "polling t (do_fetch r q) = polling t q"
  "polling t (openModal q) = polling t q"
  "polling t (closeModal q) = polling t q"
  "polling t (resetSubmitButton q) = polling t q"
  "polling t (hideStatus q) = polling t q"
  by (simp_all add: do_fetch_def openModal_def closeModal_def resetSubmitButton_def
        hideStatus_def)

















lemma presentList_startRobustTimer [simp]:
  "presentList_exists (startRobustTimer e p) = presentList_exists p"
  "fetches (startRobustTimer e p) = fetches p"
  by (simp_all add: startRobustTimer_def setInterval_def setTimer_def)



lemma reload_basic [simp]:
  "reload_requested (showStatusMessage msg ty q) = reload_requested q"
  "reload_requested (do_fetch r q) = reload_requested q"
  "reload_requested (openModal q) = reload_requested q"
  "reload_requested (closeModal q) = reload_requested q"
  "reload_requested (resetSubmitButton q) = reload_requested q"
  "reload_requested (hideStatus q) = reload_requested q"
  "reload_requested (clearTimer i q) = reload_requested q"
  "reload_requested (snd (setTimer rep cb d q)) = reload_requested q"
  by (simp_all add: showStatusMessage_def setTimeout_def setTimer_def do_fetch_def
        openModal_def closeModal_def resetSubmitButton_def hideStatus_def clearTimer_def)

lemma reload_fetchPresentStudents [simp]:
  "reload_requested (fetchPresentStudents i wd q) = reload_requested q"
  by (simp add: fetchPresentStudents_def Let_def split: fetched.splits option.splits)

lemma reload_handleAttendanceSubmission [simp]:
  "reload_requested (snd (handleAttendanceSubmission w wd pos m q)) = reload_requested q"
  by (simp add: handleAttendanceSubmission_def Let_def split: fetched.splits option.splits)

lemma reload_failed [simp]:
  "reload_requested (gps_failed q) = reload_requested q"
  "reload_requested (google_failed q) = reload_requested q"
  by (simp_all add: gps_failed_def google_failed_def)

lemma reload_locations [simp]:
  "reload_requested (snd (getBrowserGpsLocation w wd q)) = reload_requested q"
  "reload_requested (snd (getGoogleApiLocation w wd q)) = reload_requested q"
  by (simp_all add: getBrowserGpsLocation_def getGoogleApiLocation_def Let_def
        split: sum.splits option.splits fetched.splits)

lemma reload_attendanceForm_submit [simp]:
  "reload_requested (attendanceForm_submit w wd q) = reload_requested q"
proof -
  let ?p1 = "q\<lparr>markButton_disabled := True, spinner_display := js ''inline-block'',
                 markButton_text := js ''Getting GPS Location...'',
                 tips_display := js ''none''\<rparr>"
  obtain r p2 where g: "getBrowserGpsLocation w wd ?p1 = (r, p2)"
    by (cases "getBrowserGpsLocation w wd ?p1") blast
  have p2: "reload_requested p2 = reload_requested q"
    using reload_locations(1) [of w wd ?p1] g by simp
  show ?thesis
  proof (cases r)
    case (Inl e)
    with g p2 show ?thesis by (simp add: attendanceForm_submit_def Let_def)
  next
    case (Inr pos)
    obtain e p3 where h: "handleAttendanceSubmission w wd pos (js ''gps'') p2 = (e, p3)"
      by (cases "handleAttendanceSubmission w wd pos (js ''gps'') p2") blast
    have "reload_requested p3 = reload_requested p2"
      using reload_handleAttendanceSubmission [of w wd pos "js ''gps''" p2] h by simp
    with g Inr h p2 show ?thesis
      by (cases e) (simp_all add: attendanceForm_submit_def Let_def)
  qed
qed

lemma reload_retryWithGoogleBtn_click [simp]:
  "reload_requested (retryWithGoogleBtn_click w wd q) = reload_requested q"
proof -
  let ?p1 = "(closeModal q)\<lparr>markButton_text := js ''Getting Wi-Fi Location...''\<rparr>"
  obtain r p2 where g: "getGoogleApiLocation w wd ?p1 = (r, p2)"
    by (cases "getGoogleApiLocation w wd ?p1") blast
  have p2: "reload_requested p2 = reload_requested q"
    using reload_locations(2) [of w wd ?p1] g by simp
  show ?thesis
  proof (cases r)
    case (Inl e)
    with g p2 show ?thesis by (simp add: retryWithGoogleBtn_click_def Let_def)
  next
    case (Inr pos)
    obtain e p3 where h: "handleAttendanceSubmission w wd pos (js ''google'') p2 = (e, p3)"
      by (cases "handleAttendanceSubmission w wd pos (js ''google'') p2") blast
    have "reload_requested p3 = reload_requested p2"
      using reload_handleAttendanceSubmission [of w wd pos "js ''google''" p2] h by simp
    with g Inr h p2 show ?thesis
      by (cases e) (simp_all add: retryWithGoogleBtn_click_def Let_def)
  qed
qed

lemma reload_enrollmentInput [simp]:
  "reload_requested (enrollmentInput_handler wd q) = reload_requested q"
  "reload_requested (enrollmentInput_input v q) = reload_requested q"
  by (simp_all add: enrollmentInput_handler_def enrollmentInput_input_def Let_def
        setTimeout_def setTimer_def split: fetched.splits option.splits)





lemma reload_initStudentPage [simp]:
  "reload_requested (initStudentPage w wd p) = reload_requested p"
  by (simp add: initStudentPage_def Let_def startRobustTimer_def setInterval_def
        split: option.splits)




end
